theory Spec2Isabelle
  imports Main "HOL-Library.Word" "HOL-Library.AList" "HOL-Library.Sublist"
begin

unbundle bit_operations_syntax

section \<open>Python values, exceptions and the libraries the pipeline calls\<close>

text \<open>
  The decryption code of the repository is Python. Its values are modelled by \<open>pyval\<close>
  (what \<open>json.loads\<close> can return, which is also what a CSV cell read by pandas can hold:
  a string, a number, or the float NaN of an empty cell). A float is its IEEE-754 bit
  pattern; only its truth value is ever inspected. A \<open>bytes\<close> object is a list of
  8-bit words. A \<open>str\<close> is the list of the code points of its characters (\<open>ord\<close> of
  each), so that its length, its slices and its prefixes are those of Python, and a lone
  surrogate such as \<open>U+D83D\<close>, which \<open>json.loads\<close> produces from the escape
  \<open>\ud83d\<close>, is a string like any other; \<open>lit\<close> turns a literal into such a list. A
  \<open>dict\<close> is an association list in insertion order with distinct keys. The Python
  value \<open>None\<close> is \<open>PNone\<close>.
\<close>

type_synonym pystr = "int list"

definition lit :: "string \<Rightarrow> pystr" where
  "lit s = map of_char s"

type_synonym byte = "8 word"
type_synonym bytes = "byte list"

datatype pyval =
    PNone
  | PBool bool
  | PInt int
  | PFloat "64 word"
  | PStr pystr
  | PList "pyval list"
  | PDict "(pystr \<times> pyval) list"

type_synonym pydict = "(pystr \<times> pyval) list"

text \<open>
  An exception is its class name and the text \<open>str(e)\<close>. Every exception of the model is
  a subclass of \<open>Exception\<close>, so \<open>except Exception\<close> catches it. A computation that may
  raise has the type \<open>pyexc + 'a\<close>: \<open>Inl e\<close> is "raised e", \<open>Inr v\<close> is "returned v".
\<close>

datatype pyexc = PyExc (exc_class: string) (exc_str: pystr)

definition andthen :: "pyexc + 'a \<Rightarrow> ('a \<Rightarrow> pyexc + 'b) \<Rightarrow> pyexc + 'b" where
  "andthen m f = (case m of Inl e \<Rightarrow> Inl e | Inr v \<Rightarrow> f v)"

definition try_except :: "pyexc + 'a \<Rightarrow> (pyexc \<Rightarrow> pyexc + 'a) \<Rightarrow> pyexc + 'a" where
  "try_except body handler = (case body of Inl e \<Rightarrow> handler e | Inr v \<Rightarrow> Inr v)"

text \<open>
  The functions of the standard library and of the \<open>cryptography\<close> package are not code
  of the repository. They are parameters of the model, collected in one record; every
  theorem below holds for all of them.
  \<^item> \<open>b64decode\<close> is \<open>base64.b64decode\<close> on a \<open>str\<close>, \<open>utf8_decode\<close> is
    \<open>bytes.decode('utf-8')\<close>, \<open>json_loads\<close> is \<open>json.loads\<close>;
  \<^item> \<open>rsa_decrypt_oaep\<close> and \<open>rsa_decrypt_pkcs1v15\<close> are \<open>self.private_key.decrypt\<close>
    with \<open>padding.OAEP(MGF1(SHA256), SHA256, None)\<close> and with \<open>padding.PKCS1v15()\<close>;
  \<^item> \<open>aes_gcm_decrypt key nonce tag ciphertext\<close> is the construction of
    \<open>Cipher(algorithms.AES(key), modes.GCM(nonce, tag))\<close> followed by
    \<open>update(ciphertext) + finalize()\<close>; \<open>aes_cbc_decrypt key iv content\<close> is the same
    with \<open>modes.CBC(iv)\<close>;
  \<^item> \<open>sha256_hexdigest s\<close> is \<open>hashlib.sha256(s.encode('utf-8')).hexdigest()\<close> and
    \<open>py_str\<close> is the builtin \<open>str\<close>;
  \<^item> \<open>to_csv name rows\<close> is \<open>pd.DataFrame(rows).to_csv(path, index=False)\<close> for the
    file \<open>name\<close> of the output directory. It raises, for instance, a
    \<open>UnicodeEncodeError\<close> when a cell holds a string with a lone surrogate.
\<close>

record py_lib =
  b64decode :: "pystr \<Rightarrow> pyexc + bytes"
  utf8_decode :: "bytes \<Rightarrow> pyexc + pystr"
  json_loads :: "pystr \<Rightarrow> pyexc + pyval"
  rsa_decrypt_oaep :: "bytes \<Rightarrow> pyexc + bytes"
  rsa_decrypt_pkcs1v15 :: "bytes \<Rightarrow> pyexc + bytes"
  aes_gcm_decrypt :: "bytes \<Rightarrow> bytes \<Rightarrow> bytes \<Rightarrow> bytes \<Rightarrow> pyexc + bytes"
  aes_cbc_decrypt :: "bytes \<Rightarrow> bytes \<Rightarrow> bytes \<Rightarrow> pyexc + bytes"
  sha256_hexdigest :: "pystr \<Rightarrow> pystr"
  py_str :: "pyval \<Rightarrow> pystr"
  to_csv :: "pystr \<Rightarrow> pydict list \<Rightarrow> pyexc + unit"

subsection \<open>Builtin behaviour of Python values\<close>

fun type_name :: "pyval \<Rightarrow> pystr" where
  "type_name PNone = lit ''NoneType''"
| "type_name (PBool _) = lit ''bool''"
| "type_name (PInt _) = lit ''int''"
| "type_name (PFloat _) = lit ''float''"
| "type_name (PStr _) = lit ''str''"
| "type_name (PList _) = lit ''list''"
| "type_name (PDict _) = lit ''dict''"

text \<open>Truth value of a Python object, as tested by \<open>if x:\<close> and by \<open>and\<close>.\<close>

fun truthy :: "pyval \<Rightarrow> bool" where
  "truthy PNone = False"
| "truthy (PBool b) = b"
| "truthy (PInt i) = (i \<noteq> 0)"
| "truthy (PFloat w) = (w \<noteq> 0 \<and> w \<noteq> 0x8000000000000000)"
| "truthy (PStr s) = (s \<noteq> [])"
| "truthy (PList xs) = (xs \<noteq> [])"
| "truthy (PDict d) = (d \<noteq> [])"

text \<open>
  \<open>base64.b64decode\<close> applied to an arbitrary value: a \<open>str\<close> is decoded, any other
  value of the model is rejected with a \<open>TypeError\<close>.
\<close>

definition py_b64decode :: "py_lib \<Rightarrow> pyval \<Rightarrow> pyexc + bytes" where
  "py_b64decode L v =
     (case v of
        PStr s \<Rightarrow> b64decode L s
      | _ \<Rightarrow> Inl (PyExc ''TypeError''
                (lit ''argument should be a bytes-like object or ASCII string, not '' @
                 [0x27] @ type_name v @ [0x27])))"

section \<open>The XOR transformation\<close>

text \<open>
  \<open>EncryptionTester._encrypt_xor\<close>, \<open>EncryptionTester._decrypt_xor\<close>
  (structure_tools/analyze_encryption_limits.py) and the first method of
  \<open>AutomatedDecryptionPipeline.decrypt_location_data\<close> run the same loop:
  \<^verbatim>\<open>
    out = []
    for i in range(len(data)):
        out.append(data[i] ^ key[i % len(key)])
  \<close>
  With an empty key and non-empty data the first iteration raises \<open>ZeroDivisionError\<close>.
\<close>

function xor_loop :: "bytes \<Rightarrow> bytes \<Rightarrow> nat \<Rightarrow> bytes \<Rightarrow> pyexc + bytes" where
  "xor_loop data key i out =
     (if i < length data then
        (if length key = 0 then Inl (PyExc ''ZeroDivisionError'' (lit ''integer modulo by zero''))
         else xor_loop data key (Suc i) (out @ [data ! i XOR key ! (i mod length key)]))
      else Inr out)"
  by pat_completeness auto
termination
  by (relation "measure (\<lambda>(data, key, i, out). length data - i)") auto

declare xor_loop.simps [simp del]

definition encrypt_xor :: "bytes \<Rightarrow> bytes \<Rightarrow> pyexc + bytes" where
  "encrypt_xor data key = xor_loop data key 0 []"

definition decrypt_xor :: "bytes \<Rightarrow> bytes \<Rightarrow> pyexc + bytes" where
  "decrypt_xor data key = xor_loop data key 0 []"

section \<open>The payload decipherer\<close>

text \<open>\<open>padded_data[-1]\<close> on a \<open>bytes\<close> object: the last byte as an integer, or \<open>IndexError\<close>.\<close>

definition last_byte :: "bytes \<Rightarrow> pyexc + nat" where
  "last_byte b = (if b = [] then Inl (PyExc ''IndexError'' (lit ''index out of range''))
                  else Inr (unat (last b)))"

text \<open>
  \<open>padded_data[:-padding_length]\<close>: for \<open>padding_length = 0\<close> the slice is \<open>[:0]\<close>, the
  empty string; a length beyond the data also gives the empty string.
\<close>

definition strip_padding :: "bytes \<Rightarrow> nat \<Rightarrow> bytes" where
  "strip_padding padded_data padding_length =
     (if padding_length = 0 then [] else take (length padded_data - padding_length) padded_data)"

text \<open>
  \<open>AutomatedDecryptionPipeline.decrypt_location_data\<close>
  (decryption_tools/automated_decryption_pipeline.py). Each inner \<open>try\<close> block returns
  from the function when it reaches its \<open>return\<close>; when it raises, the handler prints and
  control goes on to the next method. After the last method the function ends without a
  \<open>return\<close>, which yields \<open>None\<close>; the outer handler returns \<open>None\<close> as well.
\<close>

definition decrypt_location_data :: "py_lib \<Rightarrow> pyval \<Rightarrow> bytes \<Rightarrow> pyexc + pyval" where
  "decrypt_location_data L encrypted_data_b64 aes_key =
     try_except
       (andthen (py_b64decode L encrypted_data_b64) (\<lambda>encrypted_data.
          case andthen (xor_loop encrypted_data aes_key 0 [])
                 (\<lambda>decrypted_data. andthen (utf8_decode L decrypted_data) (json_loads L)) of
            Inr v \<Rightarrow> Inr v
          | Inl _ \<Rightarrow>
             (case (if length encrypted_data \<ge> 28
                    then andthen
                           (aes_gcm_decrypt L aes_key
                              (take 12 encrypted_data)
                              (drop (length encrypted_data - 16) encrypted_data)
                              (drop 12 (take (length encrypted_data - 16) encrypted_data)))
                           (\<lambda>decrypted_json.
                              andthen (utf8_decode L decrypted_json)
                                (\<lambda>s. andthen (json_loads L s) (\<lambda>v. Inr (Some v))))
                    else Inr None) of
                Inr (Some v) \<Rightarrow> Inr v
              | _ \<Rightarrow>
                 (if length encrypted_data > 16
                  then try_except
                         (andthen (aes_cbc_decrypt L aes_key (take 16 encrypted_data)
                                     (drop 16 encrypted_data))
                            (\<lambda>padded_data. andthen (last_byte padded_data)
                               (\<lambda>padding_length.
                                  andthen (utf8_decode L (strip_padding padded_data padding_length))
                                    (json_loads L))))
                         (\<lambda>_. Inr PNone)
                  else Inr PNone))))
       (\<lambda>_. Inr PNone)"

section \<open>The key unwrapper\<close>

text \<open>
  \<open>AutomatedDecryptionPipeline.decrypt_aes_key\<close>. The PKCS1v15 attempt is the body of the
  inner \<open>except\<close> clause; an exception raised there reaches the outer handler, which
  returns \<open>None\<close>. The result is \<open>Optional[bytes]\<close>.
\<close>

definition decrypt_aes_key :: "py_lib \<Rightarrow> pyval \<Rightarrow> pyexc + bytes option" where
  "decrypt_aes_key L encrypted_key_b64 =
     try_except
       (andthen (py_b64decode L encrypted_key_b64) (\<lambda>encrypted_key.
          try_except
            (andthen (rsa_decrypt_oaep L encrypted_key) (\<lambda>decrypted_data.
               andthen (utf8_decode L decrypted_data) (\<lambda>aes_key_base64.
                 andthen (b64decode L aes_key_base64) (\<lambda>aes_key. Inr (Some aes_key)))))
            (\<lambda>_.
               andthen (rsa_decrypt_pkcs1v15 L encrypted_key) (\<lambda>decrypted_data.
                 andthen (utf8_decode L decrypted_data) (\<lambda>aes_key_base64.
                   andthen (b64decode L aes_key_base64) (\<lambda>aes_key. Inr (Some aes_key)))))))
       (\<lambda>_. Inr None)"

section \<open>Dictionaries and other builtin operations\<close>

text \<open>\<open>d.get(k, dflt)\<close> on a \<open>dict\<close>.\<close>

definition dict_get :: "pydict \<Rightarrow> pystr \<Rightarrow> pyval \<Rightarrow> pyval" where
  "dict_get d k dflt = (case map_of d k of Some v \<Rightarrow> v | None \<Rightarrow> dflt)"

text \<open>\<open>d.setdefault(k, v)\<close>: stores \<open>v\<close> only when the key is absent.\<close>

definition dict_setdefault :: "pystr \<Rightarrow> pyval \<Rightarrow> pydict \<Rightarrow> pydict" where
  "dict_setdefault k v d = (if k \<in> set (map fst d) then d else AList.update k v d)"

text \<open>\<open>x.get(k)\<close> on an arbitrary value: only a \<open>dict\<close> has the method.\<close>

definition py_get :: "pyval \<Rightarrow> pystr \<Rightarrow> pyexc + pyval" where
  "py_get x k =
     (case x of
        PDict d \<Rightarrow> Inr (dict_get d k PNone)
      | _ \<Rightarrow> Inl (PyExc ''AttributeError''
                ([0x27] @ type_name x @ [0x27] @ lit '' object has no attribute '' @
                 [0x27] @ lit ''get'' @ [0x27])))"

text \<open>\<open>x.items()\<close> on an arbitrary value.\<close>

definition py_items :: "pyval \<Rightarrow> pyexc + pydict" where
  "py_items x =
     (case x of
        PDict d \<Rightarrow> Inr d
      | _ \<Rightarrow> Inl (PyExc ''AttributeError''
                ([0x27] @ type_name x @ [0x27] @ lit '' object has no attribute '' @
                 [0x27] @ lit ''items'' @ [0x27])))"

text \<open>
  \<open>k in x\<close> for a string \<open>k\<close>: key membership in a \<open>dict\<close>, element membership in a
  \<open>list\<close>, substring test in a \<open>str\<close>, and a \<open>TypeError\<close> for the other values (the
  wording is CPython's up to 3.13; nothing below depends on the wording).
\<close>

definition py_contains :: "pystr \<Rightarrow> pyval \<Rightarrow> pyexc + bool" where
  "py_contains k x =
     (case x of
        PDict d \<Rightarrow> Inr (k \<in> set (map fst d))
      | PList xs \<Rightarrow> Inr (PStr k \<in> set xs)
      | PStr s \<Rightarrow> Inr (sublist k s)
      | _ \<Rightarrow> Inl (PyExc ''TypeError''
                (lit ''argument of type '' @ [0x27] @ type_name x @ [0x27] @
                 (lit '' is not iterable''))))"

text \<open>\<open>x[k]\<close> for a string \<open>k\<close>: only a \<open>dict\<close> that has the key returns.\<close>

definition py_subscript :: "pyval \<Rightarrow> pystr \<Rightarrow> pyexc + pyval" where
  "py_subscript x k =
     (case x of
        PDict d \<Rightarrow>
          (case map_of d k of
             Some v \<Rightarrow> Inr v
           | None \<Rightarrow> Inl (PyExc ''KeyError'' ([0x27] @ k @ [0x27])))
      | PList _ \<Rightarrow> Inl (PyExc ''TypeError'' (lit ''list indices must be integers or slices, not str''))
      | PStr _ \<Rightarrow>
          Inl (PyExc ''TypeError''
                 (lit ''string indices must be integers, not '' @ [0x27] @ lit ''str'' @ [0x27]))
      | _ \<Rightarrow> Inl (PyExc ''TypeError''
                ([0x27] @ type_name x @ [0x27] @ lit '' object is not subscriptable'')))"

text \<open>
  \<open>for loc in x\<close>: the elements of a \<open>list\<close>, the keys of a \<open>dict\<close>, the characters of
  a \<open>str\<close>; the other values are not iterable.
\<close>

definition py_iter :: "pyval \<Rightarrow> pyexc + pyval list" where
  "py_iter x =
     (case x of
        PList xs \<Rightarrow> Inr xs
      | PDict d \<Rightarrow> Inr (map (\<lambda>kv. PStr (fst kv)) d)
      | PStr s \<Rightarrow> Inr (map (\<lambda>c. PStr [c]) s)
      | _ \<Rightarrow> Inl (PyExc ''TypeError''
                ([0x27] @ type_name x @ [0x27] @ lit '' object is not iterable'')))"

section \<open>Extraction of location points\<close>

text \<open>
  The dictionary that \<open>_extract_location_points\<close> appends for the entry \<open>loc\<close> at index
  \<open>i\<close> of the list (\<open>seq\<close> is \<open>i + 1\<close>).
\<close>

definition location_point :: "pyval \<Rightarrow> nat \<Rightarrow> pydict \<Rightarrow> pydict" where
  "location_point response_id seq loc =
     [(lit ''response_id'', response_id),
      (lit ''point_sequence'', PInt (int seq)),
      (lit ''timestamp'', dict_get loc (lit ''timestamp'') (PStr [])),
      (lit ''latitude'', dict_get loc (lit ''latitude'') (PStr [])),
      (lit ''longitude'', dict_get loc (lit ''longitude'') (PStr [])),
      (lit ''accuracy'', dict_get loc (lit ''accuracy'') (PStr [])),
      (lit ''altitude'', dict_get loc (lit ''altitude'') (PStr [])),
      (lit ''speed'', dict_get loc (lit ''speed'') (PStr [])),
      (lit ''heading'', dict_get loc (lit ''heading'') (PStr [])),
      (lit ''provider'', dict_get loc (lit ''provider'') (PStr [])),
      (lit ''battery_level'', dict_get loc (lit ''batteryLevel'') (PStr [])),
      (lit ''is_mock'', dict_get loc (lit ''isMock'') (PStr []))]"

text \<open>
  The loop \<open>for i, loc in enumerate(decrypted_data['locationData'])\<close>: \<open>i\<close> is the index
  of the entry in the list, the remaining entries are the second argument, and an entry
  that is not a \<open>dict\<close> is skipped.
\<close>

fun extract_loop :: "pyval \<Rightarrow> nat \<Rightarrow> pyval list \<Rightarrow> pydict list \<Rightarrow> pydict list" where
  "extract_loop response_id i [] locations = locations"
| "extract_loop response_id i (loc # rest) locations =
     extract_loop response_id (Suc i) rest
       (case loc of
          PDict d \<Rightarrow> locations @ [location_point response_id (i + 1) d]
        | _ \<Rightarrow> locations)"

text \<open>
  \<open>AutomatedDecryptionPipeline._extract_location_points\<close>. An exception can only be
  raised by the condition of the \<open>if\<close>, before anything is appended; the handler prints
  and the function returns the list, which is then empty.
\<close>

definition extract_location_points :: "pyval \<Rightarrow> pyval \<Rightarrow> pydict list" where
  "extract_location_points decrypted_data response_id =
     (case andthen (py_contains (lit ''locationData'') decrypted_data) (\<lambda>has.
             if has then
               andthen (py_subscript decrypted_data (lit ''locationData'')) (\<lambda>v.
                 case v of
                   PList xs \<Rightarrow> Inr (extract_loop response_id 0 xs [])
                 | _ \<Rightarrow> Inr [])
             else Inr []) of
        Inl _ \<Rightarrow> []
      | Inr locations \<Rightarrow> locations)"

section \<open>Processing the records of one survey type\<close>

text \<open>
  The entries of \<open>survey_type_configs\<close>; every configuration the pipeline builds has the
  three keys, and \<open>location_column\<close> may be \<open>None\<close>.
\<close>

record survey_config =
  encrypted_data_column :: pystr
  location_column :: "pystr option"
  output_prefix :: pystr

definition envelope_prefix :: pystr where
  \<open>envelope_prefix = lit ''{"encryptedData"''\<close>

definition base64_json_prefix :: pystr where
  "base64_json_prefix = lit ''eyJ''"

text \<open>
  The format chain at the head of the \<open>try\<close> block of \<open>_process_survey_group\<close>:
  \<^verbatim>\<open>
    if encrypted_data.startswith('{"encryptedData"'):
        encrypted_package = json.loads(encrypted_data)
    elif encrypted_data.startswith('eyJ'):
        decoded_json = base64.b64decode(encrypted_data).decode('utf-8')
        encrypted_package = json.loads(decoded_json)
    else:
        continue
  \<close>
  \<open>Inr None\<close> is the \<open>continue\<close> statement.
\<close>

definition load_encrypted_package :: "py_lib \<Rightarrow> pystr \<Rightarrow> pyexc + pyval option" where
  "load_encrypted_package L encrypted_data =
     (if prefix envelope_prefix encrypted_data then
        andthen (json_loads L encrypted_data) (\<lambda>encrypted_package. Inr (Some encrypted_package))
      else if prefix base64_json_prefix encrypted_data then
        andthen (b64decode L encrypted_data) (\<lambda>decoded.
          andthen (utf8_decode L decoded) (\<lambda>decoded_json.
            andthen (json_loads L decoded_json) (\<lambda>encrypted_package.
              Inr (Some encrypted_package))))
      else Inr None)"

text \<open>
  The state that the body of the loop mutates: the record \<open>decrypted_response\<close> being
  built and the list \<open>location_data_points\<close>. The \<open>try\<close> block of one record ends in one
  of three ways: it runs to its end, it raises (the state is what had been written when
  the exception left the block), or it executes \<open>continue\<close>.
\<close>

type_synonym record_state = "pydict \<times> pydict list"

datatype flow = Finished record_state | Raised pyexc record_state | Continue

definition call :: "record_state \<Rightarrow> pyexc + 'a \<Rightarrow> ('a \<Rightarrow> flow) \<Rightarrow> flow" where
  "call st m f = (case m of Inl e \<Rightarrow> Raised e st | Inr v \<Rightarrow> f v)"

definition decrypted_summary :: "py_lib \<Rightarrow> pyval \<Rightarrow> pystr" where
  "decrypted_summary L decrypted_data =
     lit ''DECRYPTED: '' @ py_str L (PInt (int (length (py_str L decrypted_data)))) @ lit '' chars''"

text \<open>
  \<^verbatim>\<open>
    for key, value in decrypted_data.items():
        if key != 'locationData':
            decrypted_response[f'decrypted_{key}'] = value
  \<close>
\<close>

fun store_fields :: "pydict \<Rightarrow> pydict \<Rightarrow> pydict" where
  "store_fields [] decrypted_response = decrypted_response"
| "store_fields ((key, val) # items) decrypted_response =
     store_fields items
       (if key \<noteq> (lit ''locationData'')
        then AList.update (lit ''decrypted_'' @ key) val decrypted_response
        else decrypted_response)"

text \<open>The branch of \<open>_process_survey_group\<close> taken when \<open>decrypted_data\<close> is true.\<close>

definition store_decrypted ::
  "py_lib \<Rightarrow> survey_config \<Rightarrow> pyval \<Rightarrow> pyval \<Rightarrow> record_state \<Rightarrow> flow" where
  "store_decrypted L cfg response_id decrypted_data st =
     (let col = encrypted_data_column cfg;
          st1 = (AList.update col (PStr (decrypted_summary L decrypted_data)) (fst st), snd st)
      in call st1 (if location_column cfg = Some col
                   then py_contains (lit ''locationData'') decrypted_data
                   else Inr False)
           (\<lambda>has.
              let st2 = (if has
                         then (let locations = extract_location_points decrypted_data response_id
                               in if locations \<noteq> [] then (fst st1, snd st1 @ locations) else st1)
                         else st1)
              in call st2 (py_items decrypted_data)
                   (\<lambda>items. Finished (store_fields items (fst st2), snd st2))))"

text \<open>The \<open>try\<close> block of \<open>_process_survey_group\<close> for one record.\<close>

definition try_decrypt ::
  "py_lib \<Rightarrow> survey_config \<Rightarrow> pyval \<Rightarrow> pystr \<Rightarrow> record_state \<Rightarrow> flow" where
  "try_decrypt L cfg response_id encrypted_data st =
     (let col = encrypted_data_column cfg in
      call st (load_encrypted_package L encrypted_data) (\<lambda>pkg.
        case pkg of
          None \<Rightarrow> Continue
        | Some encrypted_package \<Rightarrow>
            call st (py_get encrypted_package (lit ''encryptedData'')) (\<lambda>encrypted_data_b64.
            call st (py_get encrypted_package (lit ''encryptedKey'')) (\<lambda>encrypted_key_b64.
              if truthy encrypted_data_b64 \<and> truthy encrypted_key_b64 then
                call st (decrypt_aes_key L encrypted_key_b64) (\<lambda>aes_key.
                  case aes_key of
                    None \<Rightarrow>
                      Finished (AList.update col (PStr (lit ''KEY_DECRYPTION_FAILED'')) (fst st), snd st)
                  | Some k \<Rightarrow>
                      if k = [] then
                        Finished (AList.update col (PStr (lit ''KEY_DECRYPTION_FAILED'')) (fst st), snd st)
                      else
                        call st (decrypt_location_data L encrypted_data_b64 k) (\<lambda>decrypted_data.
                          if truthy decrypted_data
                          then store_decrypted L cfg response_id decrypted_data st
                          else Finished
                                 (AList.update col (PStr (lit ''DECRYPTION_FAILED'')) (fst st), snd st)))
              else Finished st))))"

text \<open>
  One iteration of \<open>for idx, (_, row) in enumerate(group_df.iterrows())\<close>. The
  accumulator is the pair of the lists \<open>decrypted_responses\<close> and
  \<open>location_data_points\<close>. The statements outside the inner \<open>try\<close> block (dictionary
  lookups, \<open>isinstance\<close>, \<open>startswith\<close>, slicing, the hash of the field) do not raise:
  the rows come from \<open>pd.read_csv\<close>, which decodes the file as UTF-8, so the field holds
  no surrogate and \<open>encrypted_data.encode('utf-8')\<close> returns.
\<close>

definition response_id_of :: "py_lib \<Rightarrow> nat \<Rightarrow> pydict \<Rightarrow> pyval" where
  "response_id_of L idx response_data =
     dict_get response_data (lit ''ResponseId'') (PStr (lit ''row_'' @ py_str L (PInt (int idx))))"

text \<open>
  The copy of the row with which \<open>decrypted_response\<close> starts, after
  \<open>setdefault('encrypted_data_hash', ...)\<close> for a non-empty string field.
\<close>

definition with_hash :: "py_lib \<Rightarrow> survey_config \<Rightarrow> pydict \<Rightarrow> pydict" where
  "with_hash L cfg response_data =
     (case dict_get response_data (encrypted_data_column cfg) PNone of
        PStr s \<Rightarrow>
          if s \<noteq> []
          then dict_setdefault (lit ''encrypted_data_hash'') (PStr (sha256_hexdigest L s)) response_data
          else response_data
      | _ \<Rightarrow> response_data)"

definition process_record ::
  "py_lib \<Rightarrow> survey_config \<Rightarrow> nat \<Rightarrow> pydict \<Rightarrow> pydict list \<times> pydict list
     \<Rightarrow> pydict list \<times> pydict list" where
  "process_record L cfg idx response_data acc =
     (let response_id = response_id_of L idx response_data;
          col = encrypted_data_column cfg;
          decrypted_response = with_hash L cfg response_data
      in
        if col \<in> set (map fst response_data) \<and> truthy (dict_get response_data col PNone) then
          (case dict_get response_data col PNone of
             PStr encrypted_data \<Rightarrow>
               if prefix envelope_prefix encrypted_data \<or>
                  prefix base64_json_prefix encrypted_data
               then
                 (case try_decrypt L cfg response_id encrypted_data
                         (decrypted_response, snd acc) of
                    Finished (resp, pts) \<Rightarrow> (fst acc @ [resp], pts)
                  | Raised e (resp, pts) \<Rightarrow>
                      (fst acc @
                         [AList.update col
                            (PStr (lit ''PROCESSING_ERROR: '' @ take 100 (exc_str e))) resp],
                       pts)
                  | Continue \<Rightarrow> acc)
               else if length encrypted_data > 0 then
                 (fst acc @
                    [AList.update col
                       (PStr (lit ''NON_ENCRYPTED: '' @ take 50 encrypted_data @ lit ''...''))
                       decrypted_response],
                  snd acc)
               else (fst acc @ [decrypted_response], snd acc)
           | _ \<Rightarrow> (fst acc @ [decrypted_response], snd acc))
        else (fst acc @ [decrypted_response], snd acc))"

fun group_loop ::
  "py_lib \<Rightarrow> survey_config \<Rightarrow> nat \<Rightarrow> pydict list \<Rightarrow> pydict list \<times> pydict list
     \<Rightarrow> pydict list \<times> pydict list" where
  "group_loop L cfg idx [] acc = acc"
| "group_loop L cfg idx (row # rest) acc =
     group_loop L cfg (Suc idx) rest (process_record L cfg idx row acc)"

text \<open>
  \<open>AutomatedDecryptionPipeline._process_survey_group\<close>. The loop and the two
  \<open>to_csv\<close> calls are the body of the batch-level \<open>try\<close>; its handler appends a message
  to \<open>self.results['errors']\<close> and returns \<open>(0, 0)\<close>. A file is written only for a
  non-empty list. The result records which files were written completely, the returned
  pair of counts and the messages appended to the error list. Creating the output
  directory (before the \<open>try\<close>) and the \<open>print\<close> calls are not modelled.
\<close>

record group_result =
  saved_responses :: "pydict list option"
  saved_locations :: "pydict list option"
  returned_counts :: "nat \<times> nat"
  logged_errors :: "pystr list"

definition save_rows :: "py_lib \<Rightarrow> pystr \<Rightarrow> pydict list \<Rightarrow> pyexc + pydict list option" where
  "save_rows L name rows =
     (if rows \<noteq> [] then andthen (to_csv L name rows) (\<lambda>_. Inr (Some rows)) else Inr None)"

definition process_survey_group :: "py_lib \<Rightarrow> survey_config \<Rightarrow> pydict list \<Rightarrow> group_result" where
  "process_survey_group L cfg group_df =
     (let acc = group_loop L cfg 0 group_df ([], []);
          decrypted_responses = fst acc;
          location_data_points = snd acc;
          failed = (\<lambda>written e.
            \<lparr>saved_responses = written, saved_locations = None, returned_counts = (0, 0),
             logged_errors =
               [lit ''Processing error in '' @ output_prefix cfg @ lit '': '' @ exc_str e]\<rparr>)
      in case save_rows L (output_prefix cfg @ lit ''_responses.csv'') decrypted_responses of
           Inl e \<Rightarrow> failed None e
         | Inr responses_file \<Rightarrow>
             (case save_rows L (output_prefix cfg @ lit ''_locations.csv'') location_data_points of
                Inl e \<Rightarrow> failed responses_file e
              | Inr locations_file \<Rightarrow>
                  \<lparr>saved_responses = responses_file, saved_locations = locations_file,
                   returned_counts = (length decrypted_responses, length location_data_points),
                   logged_errors = []\<rparr>))"

section \<open>Decrypting the location field of a single response\<close>

definition response_location :: "pyval \<Rightarrow> pydict \<Rightarrow> pydict" where
  "response_location response_id loc =
     [(lit ''response_id'', response_id),
      (lit ''timestamp'', dict_get loc (lit ''timestamp'') (PStr [])),
      (lit ''latitude'', dict_get loc (lit ''latitude'') (PStr [])),
      (lit ''longitude'', dict_get loc (lit ''longitude'') (PStr [])),
      (lit ''accuracy'', dict_get loc (lit ''accuracy'') (PStr [])),
      (lit ''altitude'', dict_get loc (lit ''altitude'') (PStr [])),
      (lit ''speed'', dict_get loc (lit ''speed'') (PStr [])),
      (lit ''heading'', dict_get loc (lit ''heading'') (PStr []))]"

text \<open>
  \<open>for loc in location_data['locationData']: locations.append({... loc.get(...) ...})\<close>;
  \<open>loc.get\<close> raises \<open>AttributeError\<close> on an entry that is not a \<open>dict\<close>.
\<close>

fun response_loop :: "pyval \<Rightarrow> pyval list \<Rightarrow> pydict list \<Rightarrow> pyexc + pydict list" where
  "response_loop response_id [] locations = Inr locations"
| "response_loop response_id (loc # rest) locations =
     (case loc of
        PDict d \<Rightarrow> response_loop response_id rest (locations @ [response_location response_id d])
      | _ \<Rightarrow> andthen (py_get loc (lit ''timestamp'')) (\<lambda>_. Inr locations))"

text \<open>
  The two fields \<open>encrypted_package['encryptedData']\<close> and
  \<open>encrypted_package['encryptedKey']\<close> of \<open>_decrypt_response_location\<close>.
\<close>

definition package_fields :: "pyval \<Rightarrow> pyexc + pyval \<times> pyval" where
  "package_fields encrypted_package =
     andthen (py_subscript encrypted_package (lit ''encryptedData'')) (\<lambda>encrypted_data_b64.
       andthen (py_subscript encrypted_package (lit ''encryptedKey'')) (\<lambda>encrypted_key_b64.
         Inr (encrypted_data_b64, encrypted_key_b64)))"

text \<open>
  \<open>AutomatedDecryptionPipeline._decrypt_response_location\<close>. In the format chain,
  \<open>Inr None\<close> is the last branch, which prints "Unknown encryption format" and returns
  the empty list.
\<close>

definition decrypt_response_location :: "py_lib \<Rightarrow> pystr \<Rightarrow> pyval \<Rightarrow> pyexc + pydict list" where
  "decrypt_response_location L encrypted_location response_id =
     try_except
       (andthen
          (if prefix envelope_prefix encrypted_location then
             andthen (json_loads L encrypted_location) (\<lambda>encrypted_package.
               andthen (package_fields encrypted_package) (\<lambda>fields. Inr (Some fields)))
           else if prefix base64_json_prefix encrypted_location then
             andthen (b64decode L encrypted_location) (\<lambda>decoded.
               andthen (utf8_decode L decoded) (\<lambda>decoded_json.
                 andthen (json_loads L decoded_json) (\<lambda>encrypted_package.
                   andthen (package_fields encrypted_package) (\<lambda>fields. Inr (Some fields)))))
           else Inr None)
          (\<lambda>fields.
             case fields of
               None \<Rightarrow> Inr []
             | Some (encrypted_data_b64, encrypted_key_b64) \<Rightarrow>
                 andthen (decrypt_aes_key L encrypted_key_b64) (\<lambda>aes_key.
                   case aes_key of
                     None \<Rightarrow> Inr []
                   | Some k \<Rightarrow>
                       if k = [] then Inr []
                       else
                         andthen (decrypt_location_data L encrypted_data_b64 k) (\<lambda>location_data.
                           if \<not> truthy location_data then Inr []
                           else
                             andthen (py_contains (lit ''locationData'') location_data) (\<lambda>has.
                               if has then
                                 andthen (py_subscript location_data (lit ''locationData'')) (\<lambda>v.
                                   andthen (py_iter v) (\<lambda>locs.
                                     response_loop response_id locs []))
                               else Inr [])))))
       (\<lambda>_. Inr [])"

section \<open>The hybrid format of the stand-alone decryption script\<close>

text \<open>\<open>fix_base64_padding\<close> (decryption_tools/decrypt_survey_data.py).\<close>

definition fix_base64_padding :: "pystr \<Rightarrow> pystr" where
  "fix_base64_padding data =
     (let missing_padding = length data mod 4
      in if missing_padding \<noteq> 0 then data @ replicate (4 - missing_padding) 0x3D
         else data)"

text \<open>
  \<open>fix_base64_padding(encrypted_package[k])\<close>. The fields of a package are strings; for
  a value of another type one of \<open>len\<close>, \<open>+=\<close> and the later \<open>b64decode\<close> raises a
  \<open>TypeError\<close>, which the single handler of \<open>decrypt_hybrid_format\<close> catches like any
  other exception.
\<close>

definition hybrid_field :: "pyval \<Rightarrow> pystr \<Rightarrow> pyexc + pystr" where
  "hybrid_field encrypted_package k =
     andthen (py_subscript encrypted_package k) (\<lambda>v.
       case v of
         PStr s \<Rightarrow> Inr (fix_base64_padding s)
       | _ \<Rightarrow> Inl (PyExc ''TypeError'' (lit ''unsupported field of type '' @ type_name v)))"

text \<open>
  \<open>decrypt_hybrid_format\<close> (decryption_tools/decrypt_survey_data.py); here
  \<open>rsa_decrypt_pkcs1v15\<close> stands for loading the private key from its file and decrypting
  with it. The inner \<open>try\<close> falls back to the RSA-decrypted bytes when they are not
  base64 text.
\<close>

definition decrypt_hybrid_format :: "py_lib \<Rightarrow> pyval \<Rightarrow> pyexc + pyval" where
  "decrypt_hybrid_format L encrypted_package =
     try_except
       (andthen (hybrid_field encrypted_package (lit ''encryptedData'')) (\<lambda>encrypted_data_b64.
        andthen (hybrid_field encrypted_package (lit ''encryptedKey'')) (\<lambda>encrypted_key_b64.
        andthen (b64decode L encrypted_data_b64) (\<lambda>encrypted_data.
        andthen (b64decode L encrypted_key_b64) (\<lambda>encrypted_key.
        andthen (rsa_decrypt_pkcs1v15 L encrypted_key) (\<lambda>aes_key_data.
          let aes_key = (case andthen (utf8_decode L aes_key_data) (b64decode L) of
                           Inr k \<Rightarrow> k
                         | Inl _ \<Rightarrow> aes_key_data)
          in andthen (xor_loop encrypted_data aes_key 0 []) (\<lambda>decrypted_data.
               andthen (utf8_decode L decrypted_data) (json_loads L))))))))
       (\<lambda>_. Inr PNone)"

section \<open>The candidate order of the payload decipherer, as specified\<close>

text \<open>
  The specification describes the decipherer as an ordered list of candidates, the first
  of which to yield valid UTF-8 JSON wins. A candidate is \<open>Some v\<close> when it succeeds with
  the parsed value \<open>v\<close>. The unpadding of the AES-CBC candidate is the one of the code.
\<close>

definition spec_parse :: "py_lib \<Rightarrow> bytes \<Rightarrow> pyval option" where
  "spec_parse L plaintext =
     (case utf8_decode L plaintext of
        Inl _ \<Rightarrow> None
      | Inr s \<Rightarrow> (case json_loads L s of Inl _ \<Rightarrow> None | Inr v \<Rightarrow> Some v))"

definition spec_xor_candidate :: "py_lib \<Rightarrow> bytes \<Rightarrow> bytes \<Rightarrow> pyval option" where
  "spec_xor_candidate L ciphertext key_bytes =
     (if ciphertext \<noteq> [] \<and> key_bytes = [] then None
      else spec_parse L
             (map (\<lambda>(i, b). b XOR key_bytes ! (i mod length key_bytes)) (enumerate 0 ciphertext)))"

definition spec_gcm_candidate :: "py_lib \<Rightarrow> bytes \<Rightarrow> bytes \<Rightarrow> pyval option" where
  "spec_gcm_candidate L ciphertext key_bytes =
     (let n = length ciphertext;
          nonce = take 12 ciphertext;
          tag = drop (n - 16) ciphertext;
          remainder = take (n - 28) (drop 12 ciphertext)
      in case aes_gcm_decrypt L key_bytes nonce tag remainder of
           Inl _ \<Rightarrow> None
         | Inr plaintext \<Rightarrow> spec_parse L plaintext)"

definition spec_cbc_candidate :: "py_lib \<Rightarrow> bytes \<Rightarrow> bytes \<Rightarrow> pyval option" where
  "spec_cbc_candidate L ciphertext key_bytes =
     (case aes_cbc_decrypt L key_bytes (take 16 ciphertext) (drop 16 ciphertext) of
        Inl _ \<Rightarrow> None
      | Inr padded \<Rightarrow>
          (if padded = [] then None
           else spec_parse L (strip_padding padded (unat (last padded)))))"

definition spec_candidates :: "py_lib \<Rightarrow> bytes \<Rightarrow> bytes \<Rightarrow> pyval option list" where
  "spec_candidates L ciphertext key_bytes =
     [spec_xor_candidate L ciphertext key_bytes] @
     (if length ciphertext \<ge> 28 then [spec_gcm_candidate L ciphertext key_bytes] else []) @
     (if length ciphertext > 16 then [spec_cbc_candidate L ciphertext key_bytes] else [])"

fun first_success :: "pyval option list \<Rightarrow> pyval" where
  "first_success [] = PNone"
| "first_success (Some v # _) = v"
| "first_success (None # candidates) = first_success candidates"

section \<open>Sample inputs\<close>

text \<open>
  The examples below run the model on concrete inputs. \<open>sample_lib\<close> fixes the
  behaviour of the libraries on the handful of strings and byte strings that the examples
  use; on these it agrees with Python (base64, UTF-8, JSON, writing CSV) and with
  AES-128 in CBC and GCM mode, the messages of \<open>UnicodeDecodeError\<close> and
  \<open>UnicodeEncodeError\<close> being shortened to the reason. Its RSA entries stand for a key
  pair and two wrapped keys with the stated plaintexts, and the digest is a placeholder.
\<close>

definition sample_utf8_decode :: "bytes \<Rightarrow> pyexc + pystr" where
  "sample_utf8_decode b =
     (if list_all (\<lambda>x. x < 0x80) b then Inr (map uint b)
      else Inl (PyExc ''UnicodeDecodeError'' (lit ''invalid start byte'')))"

text \<open>The bytes of \<open>{"a":1}\<close> XORed with the key \<open>ke\<close>, and their base64 text.\<close>

definition xor_ciphertext :: bytes where
  "xor_ciphertext = [0x10, 0x47, 0x0A, 0x47, 0x51, 0x54, 0x16]"

definition key_ke :: bytes where
  "key_ke = [0x6B, 0x65]"

text \<open>
  A 16-byte key that is not UTF-8 text (used as a raw key wrapped under RSA).
\<close>

definition raw_key :: bytes where
  "raw_key = replicate 16 0xFF"

text \<open>
  An AES-128 key (the ASCII text \<open>0123456789abcdef\<close>) and 32 bytes: the IV
  \<open>10 11 ... 1F\<close> followed by the AES-128-CBC encryption, under that key and IV, of the
  block \<open>{"a":1}XXXXXXXX\<close> followed by the byte 9. The last nine bytes of that block are
  not a PKCS7 padding. The 32 bytes XORed with the key are not UTF-8 (byte \<open>0xB5\<close> at
  position 16), and their last 16 bytes are not the GCM tag of the four bytes between
  nonce and tag.
\<close>

definition cbc_key :: bytes where
  "cbc_key = [0x30, 0x31, 0x32, 0x33, 0x34, 0x35, 0x36, 0x37,
              0x38, 0x39, 0x61, 0x62, 0x63, 0x64, 0x65, 0x66]"

definition cbc_ciphertext :: bytes where
  "cbc_ciphertext =
     [0x10, 0x11, 0x12, 0x13, 0x14, 0x15, 0x16, 0x17,
      0x18, 0x19, 0x1A, 0x1B, 0x1C, 0x1D, 0x1E, 0x1F,
      0x85, 0xFA, 0x18, 0x0F, 0xCD, 0x66, 0x65, 0xBB,
      0x23, 0x5D, 0x34, 0x53, 0x0F, 0xC1, 0x4D, 0x90]"

definition bad_padded_block :: bytes where
  "bad_padded_block =
     [0x7B, 0x22, 0x61, 0x22, 0x3A, 0x31, 0x7D,
      0x58, 0x58, 0x58, 0x58, 0x58, 0x58, 0x58, 0x58, 0x09]"

text \<open>
  The JSON text \<open>{"a":"\ud83d"}\<close> (fourteen ASCII characters), which \<open>json.loads\<close> parses
  to a dictionary whose value is the one-character string \<open>U+D83D\<close>; its bytes XORed
  with the key \<open>ke\<close>; and two envelopes: one whose data is that ciphertext, and one whose
  data is the base64 text of \<open>xor_ciphertext\<close> with two exclamation marks inserted, which
  \<open>base64.b64decode\<close> discards.
\<close>

definition surrogate_json :: pystr where
  \<open>surrogate_json = lit ''{"a":"'' @ [0x5C] @ lit ''ud83d"}''\<close>

definition surrogate_ciphertext :: bytes where
  "surrogate_ciphertext =
     [0x10, 0x47, 0x0A, 0x47, 0x51, 0x47, 0x37, 0x10, 0x0F, 0x5D, 0x58, 0x01, 0x49, 0x18]"

definition package_surrogate :: pystr where
  \<open>package_surrogate =
     lit ''{"encryptedData":"EEcKR1FHNxAPXVgBSRg=","encryptedKey":"S0VZMQ=="}''\<close>

definition package_lenient :: pystr where
  \<open>package_lenient = lit ''{"encryptedData":"EEcK!!R1FUFg==","encryptedKey":"S0VZMQ=="}''\<close>

definition sample_b64decode :: "pystr \<Rightarrow> pyexc + bytes" where
  \<open>sample_b64decode s =
     (if s = lit ''EEcKR1FUFg=='' then Inr xor_ciphertext
      else if s = lit ''S0VZMQ=='' then Inr [0x4B, 0x45, 0x59, 0x31]
      else if s = lit ''S0VZMg=='' then Inr [0x4B, 0x45, 0x59, 0x32]
      else if s = lit ''a2U='' then Inr key_ke
      else if s = lit ''AAAA'' then Inr [0x00, 0x00, 0x00]
      else if s = lit ''WzFd'' then Inr [0x5B, 0x31, 0x5D]
      else if s = lit ''hN2e3cXOgg=='' then Inr [0x84, 0xDD, 0x9E, 0xDD, 0xC5, 0xCE, 0x82]
      else if s = lit ''EBESExQVFhcYGRobHB0eH4X6GA/NZmW7I100Uw/BTZA='' then Inr cbc_ciphertext
      else if s = lit ''eyJlbmNyeXB0ZWREYXRhIjoiUVE9PSJ9''
        then Inr [0x7B, 0x22, 0x65, 0x6E, 0x63, 0x72, 0x79, 0x70, 0x74, 0x65, 0x64, 0x44,
                  0x61, 0x74, 0x61, 0x22, 0x3A, 0x22, 0x51, 0x51, 0x3D, 0x3D, 0x22, 0x7D]
      else if s = lit ''QQ=='' then Inr [0x41]
      else if s = lit ''EEcK!!R1FUFg=='' then Inr xor_ciphertext
      else if s = lit ''EEcKR1FHNxAPXVgBSRg='' then Inr surrogate_ciphertext
      else if s = lit ''not-base64!!''
        then Inl (PyExc ''binascii.Error''
                    (lit ''Invalid base64-encoded string: number of data characters (9) '' @
                     (lit ''cannot be 1 more than a multiple of 4'')))
      else Inl (PyExc ''binascii.Error'' (lit ''Incorrect padding'')))\<close>

definition sample_json_loads :: "pystr \<Rightarrow> pyexc + pyval" where
  \<open>sample_json_loads s =
     (if s = lit ''{"a":1}'' then Inr (PDict [(lit ''a'', PInt 1)])
      else if s = lit ''[1]'' then Inr (PList [PInt 1])
      else if s = lit ''{"encryptedData":"EEcKR1FUFg==","encryptedKey":"S0VZMQ=="}''
        then Inr (PDict [(lit ''encryptedData'', PStr (lit ''EEcKR1FUFg=='')),
                         (lit ''encryptedKey'', PStr (lit ''S0VZMQ==''))])
      else if s = lit ''{"encryptedData":"EEcKR1FUFg==","encryptedKey":"S0VZMg=="}''
        then Inr (PDict [(lit ''encryptedData'', PStr (lit ''EEcKR1FUFg=='')),
                         (lit ''encryptedKey'', PStr (lit ''S0VZMg==''))])
      else if s = lit ''{"encryptedData":"AAAA","encryptedKey":"S0VZMQ=="}''
        then Inr (PDict [(lit ''encryptedData'', PStr (lit ''AAAA'')),
                         (lit ''encryptedKey'', PStr (lit ''S0VZMQ==''))])
      else if s = lit ''{"encryptedData":"not-base64!!"}''
        then Inr (PDict [(lit ''encryptedData'', PStr (lit ''not-base64!!''))])
      else if s = lit ''{"encryptedData":"QQ=="}''
        then Inr (PDict [(lit ''encryptedData'', PStr (lit ''QQ==''))])
      else if s = lit ''{"encryptedData":"QQ==","encryptedKey":"not-base64!!"}''
        then Inr (PDict [(lit ''encryptedData'', PStr (lit ''QQ=='')),
                         (lit ''encryptedKey'', PStr (lit ''not-base64!!''))])
      else if s = lit ''{"encryptedData":"not-base64!!","encryptedKey":"S0VZMQ=="}''
        then Inr (PDict [(lit ''encryptedData'', PStr (lit ''not-base64!!'')),
                         (lit ''encryptedKey'', PStr (lit ''S0VZMQ==''))])
      else if s = package_lenient
        then Inr (PDict [(lit ''encryptedData'', PStr (lit ''EEcK!!R1FUFg=='')),
                         (lit ''encryptedKey'', PStr (lit ''S0VZMQ==''))])
      else if s = package_surrogate
        then Inr (PDict [(lit ''encryptedData'', PStr (lit ''EEcKR1FHNxAPXVgBSRg='')),
                         (lit ''encryptedKey'', PStr (lit ''S0VZMQ==''))])
      else if s = surrogate_json then Inr (PDict [(lit ''a'', PStr [0xD83D])])
      else if s = lit ''{"encryptedData"''
        then Inl (PyExc ''JSONDecodeError''
                    (lit ''Expecting ':' delimiter: line 1 column 17 (char 16)''))
      else Inl (PyExc ''JSONDecodeError'' (lit ''Expecting value: line 1 column 1 (char 0)'')))\<close>

text \<open>
  The ciphertext \<open>KEY1\<close> is the RSA-OAEP wrapping of the base64 text \<open>a2U=\<close> of the key
  \<open>ke\<close>; the ciphertext \<open>KEY2\<close> is the RSA-PKCS1v15 wrapping of the raw bytes of
  \<open>raw_key\<close>.
\<close>

definition sample_rsa_oaep :: "bytes \<Rightarrow> pyexc + bytes" where
  "sample_rsa_oaep c =
     (if c = [0x4B, 0x45, 0x59, 0x31] then Inr [0x61, 0x32, 0x55, 0x3D]
      else Inl (PyExc ''ValueError'' (lit ''Decryption failed'')))"

definition sample_rsa_pkcs1v15 :: "bytes \<Rightarrow> pyexc + bytes" where
  "sample_rsa_pkcs1v15 c =
     (if c = [0x4B, 0x45, 0x59, 0x32] then Inr raw_key
      else Inl (PyExc ''ValueError'' (lit ''Decryption failed'')))"

definition sample_aes_gcm :: "bytes \<Rightarrow> bytes \<Rightarrow> bytes \<Rightarrow> bytes \<Rightarrow> pyexc + bytes" where
  "sample_aes_gcm key nonce tag ciphertext =
     (if length key \<in> {16, 24, 32} then Inl (PyExc ''InvalidTag'' [])
      else Inl (PyExc ''ValueError'' (lit ''Invalid key size for AES'')))"

definition sample_aes_cbc :: "bytes \<Rightarrow> bytes \<Rightarrow> bytes \<Rightarrow> pyexc + bytes" where
  "sample_aes_cbc key iv content =
     (if key = cbc_key \<and> iv = take 16 cbc_ciphertext \<and> content = drop 16 cbc_ciphertext
      then Inr bad_padded_block
      else Inl (PyExc ''ValueError'' (lit ''Invalid key size or ciphertext length'')))"

function decimal :: "nat \<Rightarrow> pystr" where
  "decimal n =
     (if n < 10 then [48 + int n]
      else decimal (n div 10) @ [48 + int (n mod 10)])"
  by pat_completeness auto
termination
  by (relation "measure id") auto

declare decimal.simps [simp del]

definition sample_str :: "pyval \<Rightarrow> pystr" where
  "sample_str v =
     (case v of
        PInt i \<Rightarrow> (if i < 0 then lit ''-'' @ decimal (nat (- i)) else decimal (nat i))
      | PStr s \<Rightarrow> s
      | PDict d \<Rightarrow>
          (if d = [(lit ''a'', PInt 1)]
             then lit ''{'' @ [0x27] @ lit ''a'' @ [0x27] @ lit '': 1}''
           else if d = [(lit ''a'', PStr [0xD83D])]
             then lit ''{'' @ [0x27] @ lit ''a'' @ [0x27] @ lit '': '' @ [0x27, 0x5C] @
                  lit ''ud83d'' @ [0x27] @ lit ''}''
           else lit ''{...}'')
      | _ \<Rightarrow> (lit ''...''))"

text \<open>
  Writing a CSV file in UTF-8 fails on a column name or a string cell that holds a
  surrogate code point; a surrogate inside a nested list or dictionary is written escaped.
\<close>

definition has_surrogate :: "pystr \<Rightarrow> bool" where
  "has_surrogate s = list_ex (\<lambda>c. 0xD800 \<le> c \<and> c \<le> 0xDFFF) s"

definition sample_to_csv :: "pystr \<Rightarrow> pydict list \<Rightarrow> pyexc + unit" where
  "sample_to_csv name rows =
     (if list_ex (list_ex (\<lambda>(k, v). has_surrogate k \<or>
                                       (case v of PStr s \<Rightarrow> has_surrogate s | _ \<Rightarrow> False))) rows
      then Inl (PyExc ''UnicodeEncodeError'' (lit ''surrogates not allowed''))
      else Inr ())"

definition sample_lib :: py_lib where
  "sample_lib =
     \<lparr>b64decode = sample_b64decode,
      utf8_decode = sample_utf8_decode,
      json_loads = sample_json_loads,
      rsa_decrypt_oaep = sample_rsa_oaep,
      rsa_decrypt_pkcs1v15 = sample_rsa_pkcs1v15,
      aes_gcm_decrypt = sample_aes_gcm,
      aes_cbc_decrypt = sample_aes_cbc,
      sha256_hexdigest = (\<lambda>s. lit ''sha256 of '' @ s),
      py_str = sample_str,
      to_csv = sample_to_csv\<rparr>"

definition biweekly_config :: survey_config where
  "biweekly_config =
     \<lparr>encrypted_data_column = lit ''encrypted_data'',
      location_column = Some (lit ''encrypted_data''),
      output_prefix = lit ''biweekly_decrypted''\<rparr>"

text \<open>
  Rows of a CSV file: an envelope that decrypts, one whose key is a raw key under
  PKCS1v15, one whose data deciphers to no JSON, a truncated envelope, an envelope
  without \<open>encryptedKey\<close>, one whose key is not base64, one whose data is not base64, and
  a row that is not encrypted.
\<close>

definition row_of :: "pystr \<Rightarrow> pystr \<Rightarrow> pydict" where
  "row_of response_id field = [(lit ''ResponseId'', PStr response_id), (lit ''encrypted_data'', PStr field)]"

definition package_ok :: pystr where
  \<open>package_ok = lit ''{"encryptedData":"EEcKR1FUFg==","encryptedKey":"S0VZMQ=="}''\<close>

definition package_raw_key :: pystr where
  \<open>package_raw_key = lit ''{"encryptedData":"EEcKR1FUFg==","encryptedKey":"S0VZMg=="}''\<close>

definition package_bad_data :: pystr where
  \<open>package_bad_data = lit ''{"encryptedData":"AAAA","encryptedKey":"S0VZMQ=="}''\<close>

definition package_truncated :: pystr where
  \<open>package_truncated = lit ''{"encryptedData"''\<close>

definition package_missing_key :: pystr where
  \<open>package_missing_key = lit ''{"encryptedData":"not-base64!!"}''\<close>

definition package_key_not_base64 :: pystr where
  \<open>package_key_not_base64 = lit ''{"encryptedData":"QQ==","encryptedKey":"not-base64!!"}''\<close>

definition package_data_not_base64 :: pystr where
  \<open>package_data_not_base64 = lit ''{"encryptedData":"not-base64!!","encryptedKey":"S0VZMQ=="}''\<close>

definition plain_text :: pystr where
  "plain_text = lit ''plain text, not encrypted''"

definition empty_text :: pystr where
  "empty_text = []"

definition sample_batch :: "pydict list" where
  "sample_batch =
     [row_of (lit ''R_1'') package_ok, row_of (lit ''R_2'') package_raw_key,
      row_of (lit ''R_3'') package_bad_data, row_of (lit ''R_4'') package_truncated]"

text \<open>A batch whose second record decrypts to the dictionary with the surrogate.\<close>

definition surrogate_batch :: "pydict list" where
  "surrogate_batch = [row_of (lit ''R_1'') package_ok, row_of (lit ''R_9'') package_surrogate]"

text \<open>
  A batch with a record whose key is not base64 and a record whose data is not base64
  between two records that decrypt.
\<close>

definition malformed_batch :: "pydict list" where
  "malformed_batch =
     [row_of (lit ''R_1'') package_ok, row_of (lit ''R_6'') package_key_not_base64,
      row_of (lit ''R_7'') package_data_not_base64, row_of (lit ''R_1'') package_ok]"

text \<open>Two location samples.\<close>

definition two_points :: "pydict list" where
  "two_points = [[(lit ''timestamp'', PStr (lit ''2025-01-01T00:00:00Z'')), (lit ''latitude'', PInt (-26))],
                 [(lit ''timestamp'', PStr (lit ''2025-01-01T00:05:00Z'')), (lit ''latitude'', PInt (-27))]]"

section \<open>Notions used in the statements\<close>

text \<open>
  The rows that \<open>_process_survey_group\<close> appends for one record when the record is
  processed on its own, with empty accumulators.
\<close>

definition record_outcome :: "py_lib \<Rightarrow> survey_config \<Rightarrow> nat \<Rightarrow> pydict \<Rightarrow> pydict list" where
  "record_outcome L cfg idx response_data = fst (process_record L cfg idx response_data ([], []))"

text \<open>The three sentinels written in place of plaintext.\<close>

definition is_failure_sentinel :: "pyval \<Rightarrow> bool" where
  "is_failure_sentinel v =
     (case v of
        PStr s \<Rightarrow> s = lit ''KEY_DECRYPTION_FAILED'' \<or> s = lit ''DECRYPTION_FAILED'' \<or>
                  prefix (lit ''PROCESSING_ERROR: '') s
      | _ \<Rightarrow> False)"

text \<open>
  The two attempts of the key unwrapper, as specified: RSA decryption, UTF-8 decoding
  and a second base64 decoding; the attempt fails when any of the three fails.
\<close>

definition spec_double_decode :: "py_lib \<Rightarrow> pyexc + bytes \<Rightarrow> bytes option" where
  "spec_double_decode L rsa_result =
     (case rsa_result of
        Inl _ \<Rightarrow> None
      | Inr plaintext \<Rightarrow>
          (case utf8_decode L plaintext of
             Inl _ \<Rightarrow> None
           | Inr text \<Rightarrow> (case b64decode L text of Inl _ \<Rightarrow> None | Inr key \<Rightarrow> Some key)))"

definition spec_oaep_attempt :: "py_lib \<Rightarrow> bytes \<Rightarrow> bytes option" where
  "spec_oaep_attempt L encrypted_key = spec_double_decode L (rsa_decrypt_oaep L encrypted_key)"

definition spec_pkcs1v15_attempt :: "py_lib \<Rightarrow> bytes \<Rightarrow> bytes option" where
  "spec_pkcs1v15_attempt L encrypted_key =
     spec_double_decode L (rsa_decrypt_pkcs1v15 L encrypted_key)"

text \<open>
  The field of a row holds a string that the pipeline takes for an encrypted envelope.
\<close>

definition has_envelope :: "survey_config \<Rightarrow> pydict \<Rightarrow> pystr \<Rightarrow> bool" where
  "has_envelope cfg response_data s =
     (map_of response_data (encrypted_data_column cfg) = Some (PStr s) \<and>
      (prefix envelope_prefix s \<or> prefix base64_json_prefix s))"

text \<open>The value of the encrypted-data column in each of a list of output rows.\<close>

definition field_values :: "survey_config \<Rightarrow> pydict list \<Rightarrow> pyval list" where
  "field_values cfg rs = map (\<lambda>r. dict_get r (encrypted_data_column cfg) PNone) rs"

text \<open>An entry of a location list is a dictionary.\<close>

definition is_dict :: "pyval \<Rightarrow> bool" where
  "is_dict v = (case v of PDict _ \<Rightarrow> True | _ \<Rightarrow> False)"

text \<open>
  Both \<open>to_csv\<close> calls of \<open>_process_survey_group\<close> return (a call is made only for a
  non-empty list).
\<close>

definition writes_succeed :: "py_lib \<Rightarrow> survey_config \<Rightarrow> pydict list \<Rightarrow> bool" where
  "writes_succeed L cfg rows =
     (let acc = group_loop L cfg 0 rows ([], [])
      in (fst acc = [] \<or> to_csv L (output_prefix cfg @ lit ''_responses.csv'') (fst acc) = Inr ()) \<and>
         (snd acc = [] \<or> to_csv L (output_prefix cfg @ lit ''_locations.csv'') (snd acc) = Inr ()))"

text \<open>The outcome of a \<open>try\<close> block with earlier location points put in front.\<close>

definition shift_points :: "pydict list \<Rightarrow> flow \<Rightarrow> flow" where
  "shift_points pts fl =
     (case fl of
        Finished (r, ps) \<Rightarrow> Finished (r, pts @ ps)
      | Raised e (r, ps) \<Rightarrow> Raised e (r, pts @ ps)
      | Continue \<Rightarrow> Continue)"

section \<open>Properties of the XOR transformation\<close>

lemma xor_loop_closed:
  "key \<noteq> [] \<Longrightarrow>
   xor_loop data key i out =
     Inr (out @ map (\<lambda>j. data ! j XOR key ! (j mod length key)) [i..<length data])"
proof (induction data key i out rule: xor_loop.induct)
  case (1 data key i out)
  show ?case
  proof (cases "i < length data")
    case True
    then have "xor_loop data key i out =
        xor_loop data key (Suc i) (out @ [data ! i XOR key ! (i mod length key)])"
      using "1.prems" by (simp add: xor_loop.simps [of data key i out])
    also have "\<dots> = Inr ((out @ [data ! i XOR key ! (i mod length key)]) @
        map (\<lambda>j. data ! j XOR key ! (j mod length key)) [Suc i..<length data])"
      using "1.IH" [OF True] "1.prems" by simp
    finally show ?thesis
      using True by (simp add: upt_conv_Cons)
  next
    case False
    then show ?thesis
      by (simp add: xor_loop.simps [of data key i out])
  qed
qed

lemma xor_loop_empty_key:
  "xor_loop data [] 0 [] =
     (if data = [] then Inr []
      else Inl (PyExc ''ZeroDivisionError'' (lit ''integer modulo by zero'')))"
  by (simp add: xor_loop.simps [of data "[]" 0 "[]"])

text \<open>
  Claim C7. For every plaintext and every non-empty key, \<open>_encrypt_xor\<close> returns a
  ciphertext of the same length, and \<open>_decrypt_xor\<close> applied to that ciphertext with the
  same key returns the plaintext bytes exactly.
\<close>

theorem xor_round_trip:
  "key \<noteq> [] \<Longrightarrow>
   \<exists>c. encrypt_xor plaintext key = Inr c \<and> length c = length plaintext \<and>
       decrypt_xor c key = Inr plaintext"
proof -
  assume k: "key \<noteq> []"
  define c where
    "c = map (\<lambda>j. plaintext ! j XOR key ! (j mod length key)) [0..<length plaintext]"
  have e: "encrypt_xor plaintext key = Inr c"
    using xor_loop_closed [OF k, of plaintext 0 "[]"] by (simp add: encrypt_xor_def c_def)
  have l: "length c = length plaintext" by (simp add: c_def)
  have "map (\<lambda>j. c ! j XOR key ! (j mod length key)) [0..<length c] = plaintext"
    by (rule nth_equalityI) (simp_all add: c_def xor.assoc)
  then have d: "decrypt_xor c key = Inr plaintext"
    using xor_loop_closed [OF k, of c 0 "[]"] by (simp add: decrypt_xor_def)
  from e l d show ?thesis by blast
qed

text \<open>The plaintext \<open>{} \<close> (with a trailing blank) under the two-byte key \<open>ke\<close>.\<close>

theorem xor_round_trip_witness:
  "[0x6B, 0x65 :: byte] \<noteq> [] \<and>
   encrypt_xor [0x7B, 0x7D, 0x20] [0x6B, 0x65] = Inr [0x10, 0x18, 0x4B] \<and>
   decrypt_xor [0x10, 0x18, 0x4B] [0x6B, 0x65] = Inr [0x7B, 0x7D, 0x20]"
proof -
  have k: "[0x6B, 0x65 :: byte] \<noteq> []" by simp
  have e: "encrypt_xor [0x7B, 0x7D, 0x20] [0x6B, 0x65] = Inr [0x10, 0x18, 0x4B]"
    by (simp add: encrypt_xor_def xor_loop.simps)
  from xor_round_trip [OF k, of "[0x7B, 0x7D, 0x20]"] e k show ?thesis by auto
qed

section \<open>The candidate order of the payload decipherer\<close>

lemma map_index_enumerate:
  "map (\<lambda>j. f j (xs ! j)) [0..<length xs] = map (\<lambda>(i, b). f i b) (enumerate 0 xs)"
  by (rule nth_equalityI) (simp_all add: nth_enumerate_eq)

lemma xor_block_spec:
  "(case andthen (xor_loop ct key 0 []) (\<lambda>d. andthen (utf8_decode L d) (json_loads L)) of
      Inr v \<Rightarrow> Some v | Inl _ \<Rightarrow> None) = spec_xor_candidate L ct key"
proof (cases "key = []")
  case True
  then show ?thesis
    by (simp add: xor_loop_empty_key spec_xor_candidate_def spec_parse_def andthen_def
             split: sum.splits)
next
  case False
  have "map (\<lambda>j. ct ! j XOR key ! (j mod length key)) [0..<length ct] =
        map (\<lambda>(i, b). b XOR key ! (i mod length key)) (enumerate 0 ct)"
    using map_index_enumerate [of "\<lambda>i b. b XOR key ! (i mod length key)" ct] by simp
  with False show ?thesis
    by (simp add: xor_loop_closed spec_xor_candidate_def spec_parse_def andthen_def
             split: sum.splits)
qed

lemma gcm_block_spec:
  "28 \<le> length ct \<Longrightarrow>
   (case andthen
           (aes_gcm_decrypt L key (take 12 ct) (drop (length ct - 16) ct)
              (drop 12 (take (length ct - 16) ct)))
           (\<lambda>p. andthen (utf8_decode L p) (\<lambda>s. andthen (json_loads L s) (\<lambda>v. Inr (Some v)))) of
      Inr (Some v) \<Rightarrow> Some v | _ \<Rightarrow> None) = spec_gcm_candidate L ct key"
proof -
  assume "28 \<le> length ct"
  have "drop 12 (take (length ct - 16) ct) = take (length ct - 28) (drop 12 ct)"
    by (simp add: drop_take)
  then show ?thesis
    by (simp add: spec_gcm_candidate_def spec_parse_def andthen_def Let_def split: sum.splits)
qed

lemma andthen_Inr: "andthen (Inr v) f = f v"
  by (simp add: andthen_def)

lemma andthen_Inl: "andthen (Inl e) f = Inl e"
  by (simp add: andthen_def)

lemma cbc_block_spec:
  "try_except
     (andthen (aes_cbc_decrypt L key (take 16 ct) (drop 16 ct))
        (\<lambda>padded. andthen (last_byte padded)
           (\<lambda>n. andthen (utf8_decode L (strip_padding padded n)) (json_loads L))))
     (\<lambda>_. Inr PNone) =
   Inr (first_success [spec_cbc_candidate L ct key])"
  by (simp add: spec_cbc_candidate_def spec_parse_def andthen_def try_except_def last_byte_def
           split: sum.splits)

text \<open>
  Claim C1. For every ciphertext (the bytes that the base64 text decodes to) and every
  key, \<open>decrypt_location_data\<close> returns the value of the first successful candidate in
  the order XOR, AES-GCM (only for at least 28 bytes: nonce the first 12 bytes, tag the
  last 16, ciphertext the rest), AES-CBC (only for more than 16 bytes: IV the first 16
  bytes, ciphertext the rest), and \<open>None\<close> when no candidate succeeds.
\<close>

theorem decipher_candidate_order:
  assumes "b64decode L s = Inr ciphertext"
  shows "decrypt_location_data L (PStr s) key =
           Inr (first_success (spec_candidates L ciphertext key))"
proof -
  define XB where
    "XB = andthen (xor_loop ciphertext key 0 [])
            (\<lambda>d. andthen (utf8_decode L d) (json_loads L))"
  define GB where
    "GB = (if length ciphertext \<ge> 28
           then andthen
                  (aes_gcm_decrypt L key (take 12 ciphertext)
                     (drop (length ciphertext - 16) ciphertext)
                     (drop 12 (take (length ciphertext - 16) ciphertext)))
                  (\<lambda>p. andthen (utf8_decode L p)
                     (\<lambda>s. andthen (json_loads L s) (\<lambda>v. Inr (Some v))))
           else Inr None)"
  define CB where
    "CB = (if length ciphertext > 16
           then try_except
                  (andthen (aes_cbc_decrypt L key (take 16 ciphertext) (drop 16 ciphertext))
                     (\<lambda>padded. andthen (last_byte padded)
                        (\<lambda>n. andthen (utf8_decode L (strip_padding padded n)) (json_loads L))))
                  (\<lambda>_. Inr PNone)
           else Inr PNone)"
  have body: "decrypt_location_data L (PStr s) key =
      try_except
        (case XB of Inr v \<Rightarrow> Inr v
         | Inl _ \<Rightarrow> (case GB of Inr (Some v) \<Rightarrow> Inr v | _ \<Rightarrow> CB))
        (\<lambda>_. Inr PNone)"
    unfolding decrypt_location_data_def XB_def GB_def CB_def py_b64decode_def
    using assms by (simp add: andthen_Inr)
  have X: "(case XB of Inr v \<Rightarrow> Some v | Inl _ \<Rightarrow> None) = spec_xor_candidate L ciphertext key"
    unfolding XB_def by (rule xor_block_spec)
  have G: "(case GB of Inr (Some v) \<Rightarrow> Some v | _ \<Rightarrow> None) =
           (if length ciphertext \<ge> 28 then spec_gcm_candidate L ciphertext key else None)"
    unfolding GB_def using gcm_block_spec [of ciphertext L key] by simp
  have C: "CB = Inr (first_success
                      (if length ciphertext > 16 then [spec_cbc_candidate L ciphertext key] else []))"
    unfolding CB_def by (simp add: cbc_block_spec)
  show ?thesis
  proof (cases XB)
    case (Inr v)
    with X have "spec_xor_candidate L ciphertext key = Some v" by simp
    with Inr show ?thesis by (simp add: body try_except_def spec_candidates_def)
  next
    case (Inl e)
    with X have xn: "spec_xor_candidate L ciphertext key = None" by simp
    show ?thesis
    proof (cases "\<exists>v. GB = Inr (Some v)")
      case True
      then obtain v where gv: "GB = Inr (Some v)" by blast
      with G have "28 \<le> length ciphertext \<and> spec_gcm_candidate L ciphertext key = Some v"
        by (simp split: if_splits)
      with Inl gv xn show ?thesis by (simp add: body try_except_def spec_candidates_def)
    next
      case False
      then have gn: "(case GB of Inr (Some v) \<Rightarrow> Inr v | _ \<Rightarrow> CB) = CB"
        by (auto split: sum.splits option.splits)
      from False G have "(if length ciphertext \<ge> 28 then spec_gcm_candidate L ciphertext key else None) = None"
        by (auto split: sum.splits option.splits)
      then have "first_success (spec_candidates L ciphertext key) =
          first_success (if length ciphertext > 16 then [spec_cbc_candidate L ciphertext key] else [])"
        using xn by (simp add: spec_candidates_def split: if_splits)
      with Inl gn C show ?thesis by (simp add: body try_except_def)
    qed
  qed
qed

text \<open>The XOR ciphertext of \<open>{"a":1}\<close> under the key \<open>ke\<close>.\<close>

theorem decipher_candidate_order_witness:
  "b64decode sample_lib (lit ''EEcKR1FUFg=='') = Inr xor_ciphertext \<and>
   decrypt_location_data sample_lib (PStr (lit ''EEcKR1FUFg=='')) key_ke = Inr (PDict [(lit ''a'', PInt 1)]) \<and>
   first_success (spec_candidates sample_lib xor_ciphertext key_ke) = PDict [(lit ''a'', PInt 1)]"
proof -
  have h: "b64decode sample_lib (lit ''EEcKR1FUFg=='') = Inr xor_ciphertext"
    by (simp add: sample_lib_def sample_b64decode_def)
  have c: "first_success (spec_candidates sample_lib xor_ciphertext key_ke) = PDict [(lit ''a'', PInt 1)]"
    by code_simp
  from decipher_candidate_order [OF h, of key_ke] h c show ?thesis by simp
qed

section \<open>The key unwrapper\<close>

text \<open>
  Claim C2. \<open>decrypt_aes_key\<close> never raises. It first makes the RSA-OAEP attempt (RSA
  decryption, UTF-8 decoding, second base64 decoding); when any of the three steps fails
  it makes the same attempt with RSA-PKCS1v15; when that fails too, or when the encrypted
  key is not base64 text, it returns \<open>None\<close>.
\<close>

theorem key_unwrap_fallback:
  "decrypt_aes_key L encrypted_key_b64 =
     Inr (case py_b64decode L encrypted_key_b64 of
            Inl _ \<Rightarrow> None
          | Inr encrypted_key \<Rightarrow>
              (case spec_oaep_attempt L encrypted_key of
                 Some k \<Rightarrow> Some k
               | None \<Rightarrow> spec_pkcs1v15_attempt L encrypted_key))"
  by (simp add: decrypt_aes_key_def try_except_def andthen_def spec_oaep_attempt_def
        spec_pkcs1v15_attempt_def spec_double_decode_def
      split: sum.splits option.splits)

text \<open>
  When the OAEP attempt fails and the PKCS1v15 decryption yields bytes that are not
  base64 text, \<open>decrypt_aes_key\<close> returns \<open>None\<close>; \<open>decrypt_hybrid_format\<close> goes on with
  those bytes as the key.
\<close>

lemma unwrap_rejects_raw_plaintext:
  assumes "py_b64decode L v = Inr ek"
    and "spec_oaep_attempt L ek = None"
    and "rsa_decrypt_pkcs1v15 L ek = Inr p"
    and "utf8_decode L p = Inl e \<or> (\<exists>t e'. utf8_decode L p = Inr t \<and> b64decode L t = Inl e')"
  shows "decrypt_aes_key L v = Inr None"
  using assms
  by (auto simp add: decrypt_aes_key_def try_except_def andthen_def spec_oaep_attempt_def
        spec_double_decode_def
      split: sum.splits option.splits)

lemma hybrid_uses_raw_plaintext:
  assumes "hybrid_field pkg (lit ''encryptedData'') = Inr d64"
    and "hybrid_field pkg (lit ''encryptedKey'') = Inr k64"
    and "b64decode L d64 = Inr ed"
    and "b64decode L k64 = Inr ek"
    and "rsa_decrypt_pkcs1v15 L ek = Inr p"
    and "utf8_decode L p = Inl e"
  shows "decrypt_hybrid_format L pkg =
           try_except
             (andthen (xor_loop ed p 0 []) (\<lambda>d. andthen (utf8_decode L d) (json_loads L)))
             (\<lambda>_. Inr PNone)"
  using assms by (simp add: decrypt_hybrid_format_def andthen_Inr andthen_Inl)

text \<open>
  Claim C3, evaluated on a raw key wrapped under RSA-PKCS1v15: the PKCS1v15 decryption
  succeeds with the raw key, \<open>decrypt_aes_key\<close> returns \<open>None\<close>, and
  \<open>decrypt_hybrid_format\<close> deciphers a payload with the raw key.
\<close>

theorem raw_pkcs1v15_key_rejected:
  "rsa_decrypt_pkcs1v15 sample_lib [0x4B, 0x45, 0x59, 0x32] = Inr raw_key \<and>
   decrypt_aes_key sample_lib (PStr (lit ''S0VZMg=='')) = Inr None \<and>
   decrypt_hybrid_format sample_lib
     (PDict [(lit ''encryptedData'', PStr (lit ''hN2e3cXOgg=='')), (lit ''encryptedKey'', PStr (lit ''S0VZMg==''))]) =
     Inr (PDict [(lit ''a'', PInt 1)])"
  by code_simp

section \<open>Unpadding and exceptions in the payload decipherer\<close>

text \<open>
  Claim C4, evaluated on a ciphertext whose AES-CBC decryption ends in the byte 9 but
  not in a padding of nine bytes, and on 32 decrypted bytes whose last byte is 25: the
  bytes are stripped without validation, and \<open>decrypt_location_data\<close> returns the
  parsed remainder.
\<close>

theorem cbc_padding_not_validated:
  "last_byte bad_padded_block = Inr 9 \<and>
   strip_padding bad_padded_block 9 = [0x7B, 0x22, 0x61, 0x22, 0x3A, 0x31, 0x7D] \<and>
   strip_padding ([0x7B, 0x22, 0x61, 0x22, 0x3A, 0x31, 0x7D] @ replicate 24 0x58 @ [0x19]) 25 =
     [0x7B, 0x22, 0x61, 0x22, 0x3A, 0x31, 0x7D] \<and>
   decrypt_location_data sample_lib (PStr (lit ''EBESExQVFhcYGRobHB0eH4X6GA/NZmW7I100Uw/BTZA=''))
     cbc_key = Inr (PDict [(lit ''a'', PInt 1)])"
  by code_simp

text \<open>
  Claim C10, as amended. For every input value and every key, the empty key included,
  \<open>decrypt_location_data\<close> returns: the result is \<open>None\<close> or a value that \<open>json.loads\<close>
  produced, which need not be a \<open>dict\<close>.
\<close>

theorem decipher_never_raises:
  "\<exists>v. decrypt_location_data L encrypted_data_b64 aes_key = Inr v \<and>
       (v = PNone \<or> (\<exists>s. json_loads L s = Inr v))"
  by (auto simp add: decrypt_location_data_def try_except_def andthen_def
      split: sum.splits option.splits)

text \<open>
  The claim as stated fails: the base64 text \<open>WzFd\<close> of \<open>[1]\<close> with the key of one zero
  byte deciphers to a list.
\<close>

theorem decipher_returns_list:
  "decrypt_location_data sample_lib (PStr (lit ''WzFd'')) [0x00] = Inr (PList [PInt 1])"
  by code_simp

lemma decipher_empty_key:
  "decrypt_location_data sample_lib (PStr (lit ''AAAA'')) [] = Inr PNone"
  by code_simp

section \<open>Order of the extracted location points\<close>

lemma extract_loop_closed:
  "extract_loop rid i xs acc =
     acc @ concat (map (\<lambda>(j, loc). case loc of PDict d \<Rightarrow> [location_point rid (Suc j) d] | _ \<Rightarrow> [])
                    (enumerate i xs))"
  by (induction xs arbitrary: i acc) (simp_all split: pyval.splits)

lemma concat_singletons: "concat (map (\<lambda>x. [f x]) xs) = map f xs"
  by (induction xs) simp_all

lemma location_point_fields:
  "location_point rid seq loc =
     [(lit ''response_id'', rid),
      (lit ''point_sequence'', PInt (int seq)),
      (lit ''timestamp'', dict_get loc (lit ''timestamp'') (PStr [])),
      (lit ''latitude'', dict_get loc (lit ''latitude'') (PStr [])),
      (lit ''longitude'', dict_get loc (lit ''longitude'') (PStr [])),
      (lit ''accuracy'', dict_get loc (lit ''accuracy'') (PStr [])),
      (lit ''altitude'', dict_get loc (lit ''altitude'') (PStr [])),
      (lit ''speed'', dict_get loc (lit ''speed'') (PStr [])),
      (lit ''heading'', dict_get loc (lit ''heading'') (PStr [])),
      (lit ''provider'', dict_get loc (lit ''provider'') (PStr [])),
      (lit ''battery_level'', dict_get loc (lit ''batteryLevel'') (PStr [])),
      (lit ''is_mock'', dict_get loc (lit ''isMock'') (PStr []))]"
  by (simp add: location_point_def)

lemma location_point_sequence:
  "map_of (location_point rid seq loc) (lit ''point_sequence'') = Some (PInt (int seq))"
  by (simp add: location_point_def lit_def)

lemma point_sequences_enumerate:
  "map (\<lambda>r. map_of r (lit ''point_sequence''))
       (concat (map (\<lambda>(j, loc). case loc of PDict e \<Rightarrow> [location_point rid (Suc j) e] | _ \<Rightarrow> [])
                  (enumerate k xs))) =
   map (\<lambda>(j, loc). Some (PInt (int (Suc j)))) (filter (\<lambda>(j, loc). is_dict loc) (enumerate k xs))"
proof (induction xs arbitrary: k)
  case Nil
  then show ?case by simp
next
  case (Cons x xs)
  show ?case
    by (cases x) (simp_all add: Cons.IH is_dict_def location_point_sequence)
qed

text \<open>
  Claim C9. For a payload whose \<open>locationData\<close> is a list, the extracted records are
  those of the entries that are dictionaries, in the order of the list, and the
  \<open>point_sequence\<close> values of the records are the 1-based positions of these entries in
  the list, in increasing order. When every entry is a dictionary there is one record per
  entry, and record \<open>i\<close> holds the response id, \<open>point_sequence = i + 1\<close> and the fields
  of entry \<open>i\<close>.
\<close>

theorem location_points_order:
  assumes "map_of d (lit ''locationData'') = Some (PList xs)"
  shows "extract_location_points (PDict d) rid =
           concat (map (\<lambda>(i, loc). case loc of
                                      PDict e \<Rightarrow> [location_point rid (Suc i) e]
                                    | _ \<Rightarrow> [])
                     (enumerate 0 xs)) \<and>
         map (\<lambda>r. map_of r (lit ''point_sequence'')) (extract_location_points (PDict d) rid) =
           map (\<lambda>(i, loc). Some (PInt (int (Suc i))))
             (filter (\<lambda>(i, loc). is_dict loc) (enumerate 0 xs)) \<and>
         (\<forall>es. xs = map PDict es \<longrightarrow>
            length (extract_location_points (PDict d) rid) = length es \<and>
            (\<forall>i<length es.
               map_of (extract_location_points (PDict d) rid ! i) (lit ''point_sequence'') =
                 Some (PInt (int (Suc i))) \<and>
               extract_location_points (PDict d) rid ! i =
                 [(lit ''response_id'', rid),
                  (lit ''point_sequence'', PInt (int (Suc i))),
                  (lit ''timestamp'', dict_get (es ! i) (lit ''timestamp'') (PStr [])),
                  (lit ''latitude'', dict_get (es ! i) (lit ''latitude'') (PStr [])),
                  (lit ''longitude'', dict_get (es ! i) (lit ''longitude'') (PStr [])),
                  (lit ''accuracy'', dict_get (es ! i) (lit ''accuracy'') (PStr [])),
                  (lit ''altitude'', dict_get (es ! i) (lit ''altitude'') (PStr [])),
                  (lit ''speed'', dict_get (es ! i) (lit ''speed'') (PStr [])),
                  (lit ''heading'', dict_get (es ! i) (lit ''heading'') (PStr [])),
                  (lit ''provider'', dict_get (es ! i) (lit ''provider'') (PStr [])),
                  (lit ''battery_level'', dict_get (es ! i) (lit ''batteryLevel'') (PStr [])),
                  (lit ''is_mock'', dict_get (es ! i) (lit ''isMock'') (PStr []))]))"
proof -
  from assms have k: "lit ''locationData'' \<in> set (map fst d)"
    by (metis map_of_eq_None_iff option.distinct(1) set_map)
  have main: "extract_location_points (PDict d) rid =
           concat (map (\<lambda>(i, loc). case loc of
                                      PDict e \<Rightarrow> [location_point rid (Suc i) e]
                                    | _ \<Rightarrow> [])
                     (enumerate 0 xs))"
    using assms k
    by (simp add: extract_location_points_def py_contains_def py_subscript_def andthen_def
          extract_loop_closed)
  have seqs: "map (\<lambda>r. map_of r (lit ''point_sequence'')) (extract_location_points (PDict d) rid) =
           map (\<lambda>(i, loc). Some (PInt (int (Suc i))))
             (filter (\<lambda>(i, loc). is_dict loc) (enumerate 0 xs))"
    using point_sequences_enumerate [of rid 0 xs] by (simp add: main)
  have all: "extract_location_points (PDict d) rid =
        map (\<lambda>(i, e). location_point rid (Suc i) e) (enumerate 0 es)"
    if "xs = map PDict es" for es
  proof -
    from that have "enumerate 0 xs = map (\<lambda>(i, e). (i, PDict e)) (enumerate 0 es)"
      by (simp add: enumerate_eq_zip zip_map2 case_prod_unfold)
    then have "extract_location_points (PDict d) rid =
        concat (map (\<lambda>p. [location_point rid (Suc (fst p)) (snd p)]) (enumerate 0 es))"
      by (simp add: main comp_def case_prod_unfold)
    then show ?thesis
      by (simp add: concat_singletons case_prod_unfold)
  qed
  have "length (extract_location_points (PDict d) rid) = length es \<and>
        (\<forall>i<length es.
           map_of (extract_location_points (PDict d) rid ! i) (lit ''point_sequence'') =
             Some (PInt (int (Suc i))) \<and>
           extract_location_points (PDict d) rid ! i = location_point rid (Suc i) (es ! i))"
    if "xs = map PDict es" for es
    by (simp add: all [OF that] nth_enumerate_eq location_point_sequence)
  then show ?thesis
    using main seqs by (simp only: location_point_fields) blast
qed

text \<open>
  A payload with two samples, and their records: the sequence numbers are 1 and 2, the
  missing fields are empty strings.
\<close>

theorem location_points_order_witness:
  "map_of [(lit ''participant_uuid'', PStr (lit ''abc-123'')),
           (lit ''locationData'', PList (map PDict two_points))]
     (lit ''locationData'') = Some (PList (map PDict two_points)) \<and>
   map PDict two_points = map PDict two_points \<and>
   length (extract_location_points
             (PDict [(lit ''participant_uuid'', PStr (lit ''abc-123'')),
                     (lit ''locationData'', PList (map PDict two_points))])
             (PStr (lit ''R_1''))) = length two_points \<and>
   map (\<lambda>r. map_of r (lit ''point_sequence''))
     (extract_location_points
        (PDict [(lit ''participant_uuid'', PStr (lit ''abc-123'')),
                (lit ''locationData'', PList (map PDict two_points))])
        (PStr (lit ''R_1''))) = [Some (PInt 1), Some (PInt 2)] \<and>
   extract_location_points
     (PDict [(lit ''participant_uuid'', PStr (lit ''abc-123'')),
             (lit ''locationData'', PList (map PDict two_points))])
     (PStr (lit ''R_1'')) =
   [[(lit ''response_id'', PStr (lit ''R_1'')), (lit ''point_sequence'', PInt 1),
     (lit ''timestamp'', PStr (lit ''2025-01-01T00:00:00Z'')), (lit ''latitude'', PInt (-26)),
     (lit ''longitude'', PStr []), (lit ''accuracy'', PStr []), (lit ''altitude'', PStr []),
     (lit ''speed'', PStr []), (lit ''heading'', PStr []), (lit ''provider'', PStr []),
     (lit ''battery_level'', PStr []), (lit ''is_mock'', PStr [])],
    [(lit ''response_id'', PStr (lit ''R_1'')), (lit ''point_sequence'', PInt 2),
     (lit ''timestamp'', PStr (lit ''2025-01-01T00:05:00Z'')), (lit ''latitude'', PInt (-27)),
     (lit ''longitude'', PStr []), (lit ''accuracy'', PStr []), (lit ''altitude'', PStr []),
     (lit ''speed'', PStr []), (lit ''heading'', PStr []), (lit ''provider'', PStr []),
     (lit ''battery_level'', PStr []), (lit ''is_mock'', PStr [])]]"
proof -
  let ?d = "[(lit ''participant_uuid'', PStr (lit ''abc-123'')),
             (lit ''locationData'', PList (map PDict two_points))]"
  let ?r = "extract_location_points (PDict ?d) (PStr (lit ''R_1''))"
  have h: "map_of ?d (lit ''locationData'') = Some (PList (map PDict two_points))"
    by code_simp
  note t = location_points_order [OF h, of "PStr (lit ''R_1'')",
      THEN conjunct2, THEN conjunct2, THEN spec, of two_points, THEN mp, OF refl]
  have len: "length ?r = length two_points"
    using t by (rule conjunct1)
  have s: "map (\<lambda>r. map_of r (lit ''point_sequence'')) ?r = [Some (PInt 1), Some (PInt 2)]"
    by code_simp
  have r: "?r =
   [[(lit ''response_id'', PStr (lit ''R_1'')), (lit ''point_sequence'', PInt 1),
     (lit ''timestamp'', PStr (lit ''2025-01-01T00:00:00Z'')), (lit ''latitude'', PInt (-26)),
     (lit ''longitude'', PStr []), (lit ''accuracy'', PStr []), (lit ''altitude'', PStr []),
     (lit ''speed'', PStr []), (lit ''heading'', PStr []), (lit ''provider'', PStr []),
     (lit ''battery_level'', PStr []), (lit ''is_mock'', PStr [])],
    [(lit ''response_id'', PStr (lit ''R_1'')), (lit ''point_sequence'', PInt 2),
     (lit ''timestamp'', PStr (lit ''2025-01-01T00:05:00Z'')), (lit ''latitude'', PInt (-27)),
     (lit ''longitude'', PStr []), (lit ''accuracy'', PStr []), (lit ''altitude'', PStr []),
     (lit ''speed'', PStr []), (lit ''heading'', PStr []), (lit ''provider'', PStr []),
     (lit ''battery_level'', PStr []), (lit ''is_mock'', PStr [])]]"
    by code_simp
  show ?thesis
    by (intro conjI h refl len s r)
qed

lemma extract_skips_non_dict:
  "map (\<lambda>r. map_of r (lit ''point_sequence''))
     (extract_location_points
        (PDict [(lit ''locationData'', PList [PDict [], PInt 5, PDict []])]) (PStr (lit ''R_1''))) =
   [Some (PInt 1), Some (PInt 3)]"
  by code_simp

section \<open>Records are processed independently\<close>

lemma dict_get_update: "dict_get (AList.update k v d) k x = v"
  by (simp add: dict_get_def update_conv')

lemma envelope_prefix_nonempty: "prefix envelope_prefix s \<Longrightarrow> s \<noteq> []"
  by (auto simp add: envelope_prefix_def lit_def)

lemma base64_prefix_nonempty: "prefix base64_json_prefix s \<Longrightarrow> s \<noteq> []"
  by (auto simp add: base64_json_prefix_def lit_def)

lemma load_no_continue:
  "prefix envelope_prefix s \<or> prefix base64_json_prefix s \<Longrightarrow>
   load_encrypted_package L s \<noteq> Inr None"
  by (auto simp add: load_encrypted_package_def andthen_def split: sum.splits)

lemma call_shift:
  "(\<And>v. f v = shift_points pts (g v)) \<Longrightarrow>
   call (r, pts) m f = shift_points pts (call (r, []) m g)"
  by (simp add: call_def shift_points_def split: sum.splits)

lemma store_decrypted_shift:
  "store_decrypted L cfg rid dd (r, pts) = shift_points pts (store_decrypted L cfg rid dd (r, []))"
  by (simp add: store_decrypted_def call_def shift_points_def Let_def split: sum.splits)

lemma try_decrypt_shift:
  "try_decrypt L cfg rid s (r, pts) = shift_points pts (try_decrypt L cfg rid s (r, []))"
proof (cases "pts = []")
  case True
  show ?thesis
    by (cases "try_decrypt L cfg rid s (r, [])") (auto simp add: True shift_points_def)
next
  case False
  note sd = store_decrypted_shift [of L cfg rid _ r pts]
  show ?thesis
    by (simp add: try_decrypt_def call_def Let_def sd
          split: sum.splits option.splits)
       (simp add: shift_points_def)
qed

lemma store_decrypted_no_continue: "store_decrypted L cfg rid dd st \<noteq> Continue"
  by (simp add: store_decrypted_def call_def Let_def split: sum.splits)

lemma try_decrypt_no_continue:
  assumes "prefix envelope_prefix s \<or> prefix base64_json_prefix s"
  shows "try_decrypt L cfg rid s st \<noteq> Continue"
  using load_no_continue [OF assms, of L]
  by (auto simp add: try_decrypt_def call_def Let_def store_decrypted_no_continue
      split: sum.splits option.splits)

lemma process_record_acc:
  "process_record L cfg idx row (rs, pts) =
     (rs @ record_outcome L cfg idx row, pts @ snd (process_record L cfg idx row ([], [])))"
proof -
  have sh: "\<And>rid s. try_decrypt L cfg rid s (with_hash L cfg row, pts) =
      shift_points pts (try_decrypt L cfg rid s (with_hash L cfg row, []))"
    by (rule try_decrypt_shift)
  show ?thesis
    by (simp add: process_record_def record_outcome_def Let_def sh shift_points_def
          split: pyval.splits flow.splits prod.splits)
qed

lemma record_outcome_single: "\<exists>r. record_outcome L cfg idx row = [r]"
proof -
  have "\<And>s. prefix envelope_prefix s \<or> prefix base64_json_prefix s \<Longrightarrow>
      try_decrypt L cfg (response_id_of L idx row) s (with_hash L cfg row, []) \<noteq> Continue"
    by (rule try_decrypt_no_continue)
  then show ?thesis
    by (auto simp add: process_record_def record_outcome_def Let_def
          split: pyval.splits flow.splits prod.splits)
qed

lemma group_loop_rows:
  "fst (group_loop L cfg k rows (rs, pts)) =
     rs @ concat (map (\<lambda>(j, row). record_outcome L cfg j row) (enumerate k rows))"
proof (induction rows arbitrary: k rs pts)
  case Nil
  then show ?case by simp
next
  case (Cons row rows)
  show ?case
    by (simp add: process_record_acc [of L cfg k row rs pts] Cons.IH)
qed

lemma group_rows_nth:
  "length (fst (group_loop L cfg 0 rows ([], []))) = length rows \<and>
   (\<forall>i<length rows. record_outcome L cfg i (rows ! i) = [fst (group_loop L cfg 0 rows ([], [])) ! i])"
proof -
  define g where "g = (\<lambda>p. hd (record_outcome L cfg (fst p) (snd p)))"
  have single: "\<And>j row. record_outcome L cfg j row = [g (j, row)]"
  proof -
    fix j row
    obtain r where "record_outcome L cfg j row = [r]"
      using record_outcome_single [of L cfg j row] by blast
    then show "record_outcome L cfg j row = [g (j, row)]" by (simp add: g_def)
  qed
  have "(\<lambda>(j, row). record_outcome L cfg j row) = (\<lambda>p. [g p])"
    by (simp add: fun_eq_iff single)
  then have "fst (group_loop L cfg 0 rows ([], [])) = map g (enumerate 0 rows)"
    by (simp add: group_loop_rows concat_singletons)
  then show ?thesis by (simp add: nth_enumerate_eq single)
qed

section \<open>The sentinels written for a failed record\<close>

lemma has_envelope_field:
  assumes "has_envelope cfg row s"
  shows "encrypted_data_column cfg \<in> set (map fst row)"
    and "dict_get row (encrypted_data_column cfg) PNone = PStr s"
    and "s \<noteq> []"
    and "prefix envelope_prefix s \<or> prefix base64_json_prefix s"
proof -
  from assms have m: "map_of row (encrypted_data_column cfg) = Some (PStr s)"
    and p: "prefix envelope_prefix s \<or> prefix base64_json_prefix s"
    by (simp_all add: has_envelope_def)
  from m show "encrypted_data_column cfg \<in> set (map fst row)"
    by (metis map_of_eq_None_iff option.distinct(1) set_map)
  from m show "dict_get row (encrypted_data_column cfg) PNone = PStr s"
    by (simp add: dict_get_def)
  from p show "s \<noteq> []"
    using envelope_prefix_nonempty base64_prefix_nonempty by blast
  from p show "prefix envelope_prefix s \<or> prefix base64_json_prefix s" .
qed

lemma record_outcome_envelope:
  assumes "has_envelope cfg row s"
  shows "record_outcome L cfg idx row =
     (case try_decrypt L cfg (response_id_of L idx row) s (with_hash L cfg row, []) of
        Finished (resp, pts) \<Rightarrow> [resp]
      | Raised e (resp, pts) \<Rightarrow>
          [AList.update (encrypted_data_column cfg)
             (PStr (lit ''PROCESSING_ERROR: '' @ take 100 (exc_str e))) resp]
      | Continue \<Rightarrow> [])"
  using has_envelope_field [OF assms]
  by (simp add: record_outcome_def process_record_def Let_def split: flow.splits prod.splits)

lemma field_values_update:
  "field_values cfg [AList.update (encrypted_data_column cfg) v r] = [v]"
  by (simp add: field_values_def dict_get_update)

lemma try_decrypt_key_failed:
  assumes "load_encrypted_package L s = Inr (Some pkg)"
    and "py_get pkg (lit ''encryptedData'') = Inr dv" and "py_get pkg (lit ''encryptedKey'') = Inr kv"
    and "truthy dv" and "truthy kv"
    and "decrypt_aes_key L kv = Inr None \<or> decrypt_aes_key L kv = Inr (Some [])"
  shows "try_decrypt L cfg rid s st =
     Finished (AList.update (encrypted_data_column cfg) (PStr (lit ''KEY_DECRYPTION_FAILED'')) (fst st), snd st)"
  using assms by (auto simp add: try_decrypt_def call_def Let_def)

lemma try_decrypt_data_failed:
  assumes "load_encrypted_package L s = Inr (Some pkg)"
    and "py_get pkg (lit ''encryptedData'') = Inr dv" and "py_get pkg (lit ''encryptedKey'') = Inr kv"
    and "truthy dv" and "truthy kv"
    and "decrypt_aes_key L kv = Inr (Some k)" and "k \<noteq> []"
    and "decrypt_location_data L dv k = Inr v" and "\<not> truthy v"
  shows "try_decrypt L cfg rid s st =
     Finished (AList.update (encrypted_data_column cfg) (PStr (lit ''DECRYPTION_FAILED'')) (fst st), snd st)"
  using assms by (simp add: try_decrypt_def call_def Let_def)

lemma try_decrypt_skipped:
  assumes "load_encrypted_package L s = Inr (Some (PDict pkg))"
    and "\<not> truthy (dict_get pkg (lit ''encryptedData'') PNone) \<or>
         \<not> truthy (dict_get pkg (lit ''encryptedKey'') PNone)"
  shows "try_decrypt L cfg rid s st = Finished st"
  using assms by (auto simp add: try_decrypt_def call_def Let_def py_get_def)

text \<open>
  The batch-level stage. When both files are written, the responses file holds the rows
  of the loop and the lengths of the two lists are returned; when a \<open>to_csv\<close> call
  raises, the handler returns \<open>(0, 0)\<close> and logs the error.
\<close>

lemma survey_group_written:
  assumes "writes_succeed L cfg rows"
  shows "process_survey_group L cfg rows =
     \<lparr>saved_responses = (if fst (group_loop L cfg 0 rows ([], [])) = [] then None
                          else Some (fst (group_loop L cfg 0 rows ([], [])))),
      saved_locations = (if snd (group_loop L cfg 0 rows ([], [])) = [] then None
                         else Some (snd (group_loop L cfg 0 rows ([], [])))),
      returned_counts = (length (fst (group_loop L cfg 0 rows ([], []))),
                         length (snd (group_loop L cfg 0 rows ([], [])))),
      logged_errors = []\<rparr>"
  using assms
  by (auto simp add: writes_succeed_def process_survey_group_def save_rows_def Let_def
        andthen_def)

lemma survey_group_failed:
  assumes "fst (group_loop L cfg 0 rows ([], [])) \<noteq> []"
    and "to_csv L (output_prefix cfg @ lit ''_responses.csv'')
           (fst (group_loop L cfg 0 rows ([], []))) = Inl e"
  shows "process_survey_group L cfg rows =
     \<lparr>saved_responses = None, saved_locations = None, returned_counts = (0, 0),
      logged_errors = [lit ''Processing error in '' @ output_prefix cfg @ lit '': '' @ exc_str e]\<rparr>"
  using assms
  by (simp add: process_survey_group_def save_rows_def Let_def andthen_def)

text \<open>
  Claim C5, as amended. For every batch the loop appends one row per record, and the row
  of a record is the one obtained by processing that record alone, so no exception
  leaves a record and a failure in one record does not affect the others. When the
  output files are written without error, the responses file holds these rows and the
  returned count is the number of records. For a record whose field is an envelope with
  both components present: when the key unwrapper returns \<open>None\<close> (or an empty key) the
  field becomes \<open>KEY_DECRYPTION_FAILED\<close>; when the key is recovered and the decipherer
  returns \<open>None\<close> (or another false value) the field becomes \<open>DECRYPTION_FAILED\<close>; when an
  exception leaves the \<open>try\<close> block the field becomes \<open>PROCESSING_ERROR: \<close> followed by
  the first 100 characters of its message.
\<close>

theorem per_record_sentinels:
  "length (fst (group_loop L cfg 0 rows ([], []))) = length rows \<and>
   (\<forall>i<length rows.
      record_outcome L cfg i (rows ! i) = [fst (group_loop L cfg 0 rows ([], [])) ! i]) \<and>
   (writes_succeed L cfg rows \<longrightarrow>
      saved_responses (process_survey_group L cfg rows) =
        (if rows = [] then None else Some (fst (group_loop L cfg 0 rows ([], [])))) \<and>
      returned_counts (process_survey_group L cfg rows) =
        (length rows, length (snd (group_loop L cfg 0 rows ([], [])))) \<and>
      logged_errors (process_survey_group L cfg rows) = []) \<and>
   (has_envelope cfg row s \<and> load_encrypted_package L s = Inr (Some pkg) \<and>
    py_get pkg (lit ''encryptedData'') = Inr dv \<and> py_get pkg (lit ''encryptedKey'') = Inr kv \<and>
    truthy dv \<and> truthy kv \<longrightarrow>
      ((decrypt_aes_key L kv = Inr None \<or> decrypt_aes_key L kv = Inr (Some [])) \<longrightarrow>
         field_values cfg (record_outcome L cfg idx row) = [PStr (lit ''KEY_DECRYPTION_FAILED'')]) \<and>
      (decrypt_aes_key L kv = Inr (Some k) \<and> k \<noteq> [] \<and>
       decrypt_location_data L dv k = Inr v \<and> \<not> truthy v \<longrightarrow>
         field_values cfg (record_outcome L cfg idx row) = [PStr (lit ''DECRYPTION_FAILED'')])) \<and>
   (has_envelope cfg row s \<and>
    try_decrypt L cfg (response_id_of L idx row) s (with_hash L cfg row, []) = Raised e st \<longrightarrow>
      field_values cfg (record_outcome L cfg idx row) =
        [PStr (lit ''PROCESSING_ERROR: '' @ take 100 (exc_str e))])"
proof -
  have rows: "length (fst (group_loop L cfg 0 rows ([], []))) = length rows"
    and nth: "\<forall>i<length rows.
      record_outcome L cfg i (rows ! i) = [fst (group_loop L cfg 0 rows ([], [])) ! i]"
    using group_rows_nth [of L cfg rows] by simp_all
  have counts: "saved_responses (process_survey_group L cfg rows) =
        (if rows = [] then None else Some (fst (group_loop L cfg 0 rows ([], [])))) \<and>
      returned_counts (process_survey_group L cfg rows) =
        (length rows, length (snd (group_loop L cfg 0 rows ([], [])))) \<and>
      logged_errors (process_survey_group L cfg rows) = []"
    if "writes_succeed L cfg rows"
  proof -
    from rows have "(fst (group_loop L cfg 0 rows ([], [])) = []) = (rows = [])"
      by (metis length_0_conv)
    then show ?thesis
      using survey_group_written [OF that] rows by simp
  qed
  have key: "field_values cfg (record_outcome L cfg idx row) = [PStr (lit ''KEY_DECRYPTION_FAILED'')]"
    if "has_envelope cfg row s" "load_encrypted_package L s = Inr (Some pkg)"
       "py_get pkg (lit ''encryptedData'') = Inr dv" "py_get pkg (lit ''encryptedKey'') = Inr kv"
       "truthy dv" "truthy kv"
       "decrypt_aes_key L kv = Inr None \<or> decrypt_aes_key L kv = Inr (Some [])"
    using that
    by (simp add: record_outcome_envelope [OF that(1)]
          try_decrypt_key_failed [OF that(2-7)] field_values_update)
  have data: "field_values cfg (record_outcome L cfg idx row) = [PStr (lit ''DECRYPTION_FAILED'')]"
    if "has_envelope cfg row s" "load_encrypted_package L s = Inr (Some pkg)"
       "py_get pkg (lit ''encryptedData'') = Inr dv" "py_get pkg (lit ''encryptedKey'') = Inr kv"
       "truthy dv" "truthy kv"
       "decrypt_aes_key L kv = Inr (Some k)" "k \<noteq> []"
       "decrypt_location_data L dv k = Inr v" "\<not> truthy v"
    using that
    by (simp add: record_outcome_envelope [OF that(1)]
          try_decrypt_data_failed [OF that(2-10)] field_values_update)
  have err: "field_values cfg (record_outcome L cfg idx row) =
        [PStr (lit ''PROCESSING_ERROR: '' @ take 100 (exc_str e))]"
    if "has_envelope cfg row s"
       "try_decrypt L cfg (response_id_of L idx row) s (with_hash L cfg row, []) = Raised e st"
    using that
    by (cases st) (simp add: record_outcome_envelope [OF that(1)] field_values_update)
  from rows counts nth key data err show ?thesis by blast
qed

text \<open>
  A batch of four records: the first decrypts, the second has a key that cannot be
  unwrapped, the third a payload that no method deciphers, the fourth a truncated
  envelope; both files are written.
\<close>

theorem per_record_sentinels_witness:
  "has_envelope biweekly_config (sample_batch ! 1) package_raw_key \<and>
   has_envelope biweekly_config (sample_batch ! 2) package_bad_data \<and>
   has_envelope biweekly_config (sample_batch ! 3) package_truncated \<and>
   writes_succeed sample_lib biweekly_config sample_batch \<and>
   returned_counts (process_survey_group sample_lib biweekly_config sample_batch) = (4, 0) \<and>
   saved_responses (process_survey_group sample_lib biweekly_config sample_batch) =
     Some (fst (group_loop sample_lib biweekly_config 0 sample_batch ([], []))) \<and>
   record_outcome sample_lib biweekly_config 0 (sample_batch ! 0) =
     [fst (group_loop sample_lib biweekly_config 0 sample_batch ([], [])) ! 0] \<and>
   field_values biweekly_config
     (fst (group_loop sample_lib biweekly_config 0 sample_batch ([], []))) =
     [PStr (lit ''DECRYPTED: 8 chars''), PStr (lit ''KEY_DECRYPTION_FAILED''), PStr (lit ''DECRYPTION_FAILED''),
      PStr (lit ''PROCESSING_ERROR: '' @
            exc_str (PyExc ''JSONDecodeError''
                       (lit ''Expecting ':' delimiter: line 1 column 17 (char 16)'')))] \<and>
   field_values biweekly_config (record_outcome sample_lib biweekly_config 1 (sample_batch ! 1)) =
     [PStr (lit ''KEY_DECRYPTION_FAILED'')] \<and>
   field_values biweekly_config (record_outcome sample_lib biweekly_config 2 (sample_batch ! 2)) =
     [PStr (lit ''DECRYPTION_FAILED'')] \<and>
   field_values biweekly_config (record_outcome sample_lib biweekly_config 3 (sample_batch ! 3)) =
     [PStr (lit ''PROCESSING_ERROR: '' @
            take 100 (exc_str (PyExc ''JSONDecodeError''
                       (lit ''Expecting ':' delimiter: line 1 column 17 (char 16)''))))]"
proof -
  have e1: "has_envelope biweekly_config (sample_batch ! 1) package_raw_key" by code_simp
  have e2: "has_envelope biweekly_config (sample_batch ! 2) package_bad_data" by code_simp
  have e3: "has_envelope biweekly_config (sample_batch ! 3) package_truncated" by code_simp
  have l1: "load_encrypted_package sample_lib package_raw_key =
      Inr (Some (PDict [(lit ''encryptedData'', PStr (lit ''EEcKR1FUFg=='')),
                        (lit ''encryptedKey'', PStr (lit ''S0VZMg==''))]))" by code_simp
  have l2: "load_encrypted_package sample_lib package_bad_data =
      Inr (Some (PDict [(lit ''encryptedData'', PStr (lit ''AAAA'')),
                        (lit ''encryptedKey'', PStr (lit ''S0VZMQ==''))]))" by code_simp
  have g1: "py_get (PDict [(lit ''encryptedData'', PStr (lit ''EEcKR1FUFg=='')),
                           (lit ''encryptedKey'', PStr (lit ''S0VZMg==''))]) (lit ''encryptedData'') =
            Inr (PStr (lit ''EEcKR1FUFg==''))"
           "py_get (PDict [(lit ''encryptedData'', PStr (lit ''EEcKR1FUFg=='')),
                           (lit ''encryptedKey'', PStr (lit ''S0VZMg==''))]) (lit ''encryptedKey'') =
            Inr (PStr (lit ''S0VZMg==''))" by code_simp+
  have g2: "py_get (PDict [(lit ''encryptedData'', PStr (lit ''AAAA'')),
                           (lit ''encryptedKey'', PStr (lit ''S0VZMQ==''))]) (lit ''encryptedData'') =
            Inr (PStr (lit ''AAAA''))"
           "py_get (PDict [(lit ''encryptedData'', PStr (lit ''AAAA'')),
                           (lit ''encryptedKey'', PStr (lit ''S0VZMQ==''))]) (lit ''encryptedKey'') =
            Inr (PStr (lit ''S0VZMQ==''))" by code_simp+
  have k1: "decrypt_aes_key sample_lib (PStr (lit ''S0VZMg=='')) = Inr None" by code_simp
  have k2: "decrypt_aes_key sample_lib (PStr (lit ''S0VZMQ=='')) = Inr (Some key_ke)" by code_simp
  have d2: "decrypt_location_data sample_lib (PStr (lit ''AAAA'')) key_ke = Inr PNone" by code_simp
  have ne: "key_ke \<noteq> []" by (simp add: key_ke_def)
  have r3: "try_decrypt sample_lib biweekly_config (response_id_of sample_lib 3 (sample_batch ! 3))
              package_truncated (with_hash sample_lib biweekly_config (sample_batch ! 3), []) =
            Raised (PyExc ''JSONDecodeError''
                       (lit ''Expecting ':' delimiter: line 1 column 17 (char 16)''))
              (with_hash sample_lib biweekly_config (sample_batch ! 3), [])" by code_simp
  have len: "length sample_batch = 4" by code_simp
  have ws: "writes_succeed sample_lib biweekly_config sample_batch" by code_simp
  have nb: "sample_batch \<noteq> []" by code_simp
  have np: "length (snd (group_loop sample_lib biweekly_config 0 sample_batch ([], []))) = 0"
    by code_simp
  have all: "field_values biweekly_config
     (fst (group_loop sample_lib biweekly_config 0 sample_batch ([], []))) =
     [PStr (lit ''DECRYPTED: 8 chars''), PStr (lit ''KEY_DECRYPTION_FAILED''), PStr (lit ''DECRYPTION_FAILED''),
      PStr (lit ''PROCESSING_ERROR: '' @
            exc_str (PyExc ''JSONDecodeError''
                       (lit ''Expecting ':' delimiter: line 1 column 17 (char 16)'')))]" by code_simp
  have tr: "truthy (PStr (lit ''EEcKR1FUFg==''))" "truthy (PStr (lit ''S0VZMg==''))"
    "truthy (PStr (lit ''AAAA''))" "truthy (PStr (lit ''S0VZMQ==''))" "\<not> truthy PNone"
    by (simp_all add: lit_def)
  note t1 = per_record_sentinels [where L = sample_lib and cfg = biweekly_config
      and rows = sample_batch and row = "sample_batch ! 1" and s = package_raw_key
      and pkg = "PDict [(lit ''encryptedData'', PStr (lit ''EEcKR1FUFg=='')),
                        (lit ''encryptedKey'', PStr (lit ''S0VZMg==''))]"
      and dv = "PStr (lit ''EEcKR1FUFg=='')" and kv = "PStr (lit ''S0VZMg=='')" and idx = 1]
  note t2 = per_record_sentinels [where L = sample_lib and cfg = biweekly_config
      and rows = sample_batch and row = "sample_batch ! 2" and s = package_bad_data
      and pkg = "PDict [(lit ''encryptedData'', PStr (lit ''AAAA'')),
                        (lit ''encryptedKey'', PStr (lit ''S0VZMQ==''))]"
      and dv = "PStr (lit ''AAAA'')" and kv = "PStr (lit ''S0VZMQ=='')" and idx = 2
      and k = key_ke and v = PNone]
  note t3 = per_record_sentinels [where L = sample_lib and cfg = biweekly_config
      and rows = sample_batch and row = "sample_batch ! 3" and s = package_truncated
      and idx = 3
      and e = "PyExc ''JSONDecodeError'' (lit ''Expecting ':' delimiter: line 1 column 17 (char 16)'')"
      and st = "(with_hash sample_lib biweekly_config (sample_batch ! 3), [])"]
  have c1: "field_values biweekly_config
      (record_outcome sample_lib biweekly_config 1 (sample_batch ! 1)) =
     [PStr (lit ''KEY_DECRYPTION_FAILED'')]"
    using t1 e1 l1 g1 k1 tr by blast
  have c2: "field_values biweekly_config
      (record_outcome sample_lib biweekly_config 2 (sample_batch ! 2)) =
     [PStr (lit ''DECRYPTION_FAILED'')]"
    using t2 e2 l2 g2 k2 d2 ne tr by blast
  have c3: "field_values biweekly_config
      (record_outcome sample_lib biweekly_config 3 (sample_batch ! 3)) =
     [PStr (lit ''PROCESSING_ERROR: '' @
            take 100 (exc_str (PyExc ''JSONDecodeError''
                       (lit ''Expecting ':' delimiter: line 1 column 17 (char 16)''))))]"
    using t3 e3 r3 by blast
  have c0: "returned_counts (process_survey_group sample_lib biweekly_config sample_batch) = (4, 0)"
    using t1 ws len np by simp
  have c4: "saved_responses (process_survey_group sample_lib biweekly_config sample_batch) =
     Some (fst (group_loop sample_lib biweekly_config 0 sample_batch ([], [])))"
    using t1 ws nb by simp
  have c5: "record_outcome sample_lib biweekly_config 0 (sample_batch ! 0) =
     [fst (group_loop sample_lib biweekly_config 0 sample_batch ([], [])) ! 0]"
    using t1 [THEN conjunct2, THEN conjunct1, THEN spec, of 0] len by simp
  show ?thesis
    by (intro conjI e1 e2 e3 ws c0 c4 c5 all c1 c2 c3)
qed

text \<open>
  The claim as stated fails: in a batch of two records whose second one decrypts to
  \<open>{"a": "\ud83d"}\<close>, the loop builds both rows, but writing the responses file raises
  \<open>UnicodeEncodeError\<close>; no file is completed and \<open>(0, 0)\<close> is returned, so no row is
  emitted for either record.
\<close>

theorem surrogate_payload_drops_batch:
  "length surrogate_batch = 2 \<and>
   field_values biweekly_config
     (fst (group_loop sample_lib biweekly_config 0 surrogate_batch ([], []))) =
     [PStr (lit ''DECRYPTED: 8 chars''), PStr (lit ''DECRYPTED: 15 chars'')] \<and>
   map (\<lambda>r. map_of r (lit ''decrypted_a''))
     (fst (group_loop sample_lib biweekly_config 0 surrogate_batch ([], []))) =
     [Some (PInt 1), Some (PStr [0xD83D])] \<and>
   saved_responses (process_survey_group sample_lib biweekly_config surrogate_batch) = None \<and>
   returned_counts (process_survey_group sample_lib biweekly_config surrogate_batch) = (0, 0)"
  by code_simp

section \<open>Resolution of the envelope format\<close>


lemma with_hash_crypto:
  "with_hash (L\<lparr>rsa_decrypt_oaep := f1, rsa_decrypt_pkcs1v15 := f2,
               aes_gcm_decrypt := f3, aes_cbc_decrypt := f4\<rparr>) cfg row = with_hash L cfg row"
  by (simp add: with_hash_def split: pyval.splits)

lemma process_record_plain:
  assumes "map_of row (encrypted_data_column cfg) = Some (PStr s)" and "s \<noteq> []"
    and "\<not> prefix envelope_prefix s" and "\<not> prefix base64_json_prefix s"
  shows "process_record L cfg idx row acc =
     (fst acc @ [AList.update (encrypted_data_column cfg)
                   (PStr (lit ''NON_ENCRYPTED: '' @ take 50 s @ lit ''...'')) (with_hash L cfg row)],
      snd acc)"
proof -
  from assms(1) have "encrypted_data_column cfg \<in> set (map fst row)"
    by (metis map_of_eq_None_iff option.distinct(1) set_map)
  moreover from assms(1) have "dict_get row (encrypted_data_column cfg) PNone = PStr s"
    by (simp add: dict_get_def)
  ultimately show ?thesis
    using assms(2-4) by (simp add: process_record_def Let_def)
qed

lemma process_record_empty:
  assumes "map_of row (encrypted_data_column cfg) = Some (PStr [])"
  shows "process_record L cfg idx row acc = (fst acc @ [row], snd acc)"
proof -
  from assms have "dict_get row (encrypted_data_column cfg) PNone = PStr []"
    by (simp add: dict_get_def)
  then show ?thesis
    by (simp add: process_record_def with_hash_def Let_def)
qed

text \<open>
  Claim C6, as amended. A field that starts with \<open>{"encryptedData"\<close> is parsed directly
  as JSON; otherwise a field that starts with \<open>eyJ\<close> is base64-decoded, UTF-8-decoded
  and parsed as JSON; any other field is never given to the key unwrapper or the payload
  decipherer: \<open>_decrypt_response_location\<close> returns the empty list for it, and
  \<open>_process_survey_group\<close> replaces a non-empty one in the output row by the marker
  \<open>NON_ENCRYPTED: \<close> followed by its first 50 characters and three dots, whatever the RSA
  and AES functions are, and leaves the empty string as it is, without a marker.
\<close>

theorem envelope_resolution:
  "(prefix envelope_prefix s \<longrightarrow>
      load_encrypted_package L s = map_sum id Some (json_loads L s)) \<and>
   (\<not> prefix envelope_prefix s \<and> prefix base64_json_prefix s \<longrightarrow>
      load_encrypted_package L s =
        (case b64decode L s of
           Inl e \<Rightarrow> Inl e
         | Inr decoded \<Rightarrow>
             (case utf8_decode L decoded of
                Inl e \<Rightarrow> Inl e
              | Inr decoded_json \<Rightarrow> map_sum id Some (json_loads L decoded_json)))) \<and>
   (\<not> prefix envelope_prefix s \<and> \<not> prefix base64_json_prefix s \<longrightarrow>
      decrypt_response_location L s response_id = Inr [] \<and>
      (map_of row (encrypted_data_column cfg) = Some (PStr s) \<and> s \<noteq> [] \<longrightarrow>
         process_record L cfg idx row acc =
           (fst acc @ [AList.update (encrypted_data_column cfg)
                         (PStr (lit ''NON_ENCRYPTED: '' @ take 50 s @ lit ''...''))
                         (with_hash L cfg row)],
            snd acc) \<and>
         process_record (L\<lparr>rsa_decrypt_oaep := f1, rsa_decrypt_pkcs1v15 := f2,
                           aes_gcm_decrypt := f3, aes_cbc_decrypt := f4\<rparr>) cfg idx row acc =
           process_record L cfg idx row acc) \<and>
      (map_of row (encrypted_data_column cfg) = Some (PStr s) \<and> s = [] \<longrightarrow>
         process_record L cfg idx row acc = (fst acc @ [row], snd acc)))"
proof -
  have a: "prefix envelope_prefix s \<Longrightarrow>
      load_encrypted_package L s = map_sum id Some (json_loads L s)"
    by (simp add: load_encrypted_package_def andthen_def split: sum.splits)
  have b: "\<not> prefix envelope_prefix s \<Longrightarrow> prefix base64_json_prefix s \<Longrightarrow>
      load_encrypted_package L s =
        (case b64decode L s of
           Inl e \<Rightarrow> Inl e
         | Inr decoded \<Rightarrow>
             (case utf8_decode L decoded of
                Inl e \<Rightarrow> Inl e
              | Inr decoded_json \<Rightarrow> map_sum id Some (json_loads L decoded_json)))"
    by (simp add: load_encrypted_package_def andthen_def split: sum.splits)
  have c: "\<not> prefix envelope_prefix s \<Longrightarrow> \<not> prefix base64_json_prefix s \<Longrightarrow>
      decrypt_response_location L s response_id = Inr []"
    by (simp add: decrypt_response_location_def andthen_Inr try_except_def)
  have d: "process_record L' cfg idx row acc =
           (fst acc @ [AList.update (encrypted_data_column cfg)
                         (PStr (lit ''NON_ENCRYPTED: '' @ take 50 s @ lit ''...''))
                         (with_hash L' cfg row)],
            snd acc)"
    if "\<not> prefix envelope_prefix s" "\<not> prefix base64_json_prefix s"
       "map_of row (encrypted_data_column cfg) = Some (PStr s)" "s \<noteq> []" for L'
    using that by (simp add: process_record_plain)
  have e: "process_record (L\<lparr>rsa_decrypt_oaep := f1, rsa_decrypt_pkcs1v15 := f2,
                           aes_gcm_decrypt := f3, aes_cbc_decrypt := f4\<rparr>) cfg idx row acc =
           process_record L cfg idx row acc"
    if "\<not> prefix envelope_prefix s" "\<not> prefix base64_json_prefix s"
       "map_of row (encrypted_data_column cfg) = Some (PStr s)" "s \<noteq> []"
    by (simp only: d [OF that] with_hash_crypto)
  have f: "process_record L cfg idx row acc = (fst acc @ [row], snd acc)"
    if "map_of row (encrypted_data_column cfg) = Some (PStr s)" "s = []"
    using that by (simp add: process_record_empty)
  from a b c d [of L] e f show ?thesis by blast
qed

text \<open>A direct envelope, the base64 form of an envelope, and a plain text.\<close>

theorem envelope_resolution_witness:
  "prefix envelope_prefix package_ok \<and>
   load_encrypted_package sample_lib package_ok =
     Inr (Some (PDict [(lit ''encryptedData'', PStr (lit ''EEcKR1FUFg=='')),
                       (lit ''encryptedKey'', PStr (lit ''S0VZMQ==''))])) \<and>
   \<not> prefix envelope_prefix (lit ''eyJlbmNyeXB0ZWREYXRhIjoiUVE9PSJ9'') \<and>
   prefix base64_json_prefix (lit ''eyJlbmNyeXB0ZWREYXRhIjoiUVE9PSJ9'') \<and>
   load_encrypted_package sample_lib (lit ''eyJlbmNyeXB0ZWREYXRhIjoiUVE9PSJ9'') =
     Inr (Some (PDict [(lit ''encryptedData'', PStr (lit ''QQ==''))])) \<and>
   \<not> prefix envelope_prefix plain_text \<and> \<not> prefix base64_json_prefix plain_text \<and>
   map_of (row_of (lit ''R_6'') plain_text) (encrypted_data_column biweekly_config) =
     Some (PStr plain_text) \<and> plain_text \<noteq> [] \<and>
   decrypt_response_location sample_lib plain_text (PStr (lit ''R_6'')) = Inr [] \<and>
   \<not> prefix envelope_prefix empty_text \<and> \<not> prefix base64_json_prefix empty_text \<and>
   map_of (row_of (lit ''R_7'') empty_text) (encrypted_data_column biweekly_config) =
     Some (PStr empty_text) \<and> empty_text = [] \<and>
   process_record sample_lib biweekly_config 1 (row_of (lit ''R_7'') empty_text) ([], []) =
     ([[(lit ''ResponseId'', PStr (lit ''R_7'')), (lit ''encrypted_data'', PStr [])]], []) \<and>
   process_record sample_lib biweekly_config 0 (row_of (lit ''R_6'') plain_text) ([], []) =
     ([[(lit ''ResponseId'', PStr (lit ''R_6'')),
        (lit ''encrypted_data'', PStr (lit ''NON_ENCRYPTED: plain text, not encrypted...'')),
        (lit ''encrypted_data_hash'', PStr (lit ''sha256 of plain text, not encrypted''))]], [])"
proof -
  have p1: "prefix envelope_prefix package_ok" by code_simp
  have j1: "map_sum id Some (json_loads sample_lib package_ok) =
     Inr (Some (PDict [(lit ''encryptedData'', PStr (lit ''EEcKR1FUFg=='')),
                       (lit ''encryptedKey'', PStr (lit ''S0VZMQ==''))]))" by code_simp
  have p2: "\<not> prefix envelope_prefix (lit ''eyJlbmNyeXB0ZWREYXRhIjoiUVE9PSJ9'')"
    "prefix base64_json_prefix (lit ''eyJlbmNyeXB0ZWREYXRhIjoiUVE9PSJ9'')" by code_simp+
  have j2: "(case b64decode sample_lib (lit ''eyJlbmNyeXB0ZWREYXRhIjoiUVE9PSJ9'') of
           Inl e \<Rightarrow> Inl e
         | Inr decoded \<Rightarrow>
             (case utf8_decode sample_lib decoded of
                Inl e \<Rightarrow> Inl e
              | Inr decoded_json \<Rightarrow> map_sum id Some (json_loads sample_lib decoded_json))) =
     Inr (Some (PDict [(lit ''encryptedData'', PStr (lit ''QQ==''))]))" by code_simp
  have p3: "\<not> prefix envelope_prefix plain_text" "\<not> prefix base64_json_prefix plain_text"
    by code_simp+
  have m3: "map_of (row_of (lit ''R_6'') plain_text) (encrypted_data_column biweekly_config) =
     Some (PStr plain_text)" by code_simp
  have n3: "plain_text \<noteq> []" by (simp add: plain_text_def lit_def)
  have o3: "(fst ([], []) @ [AList.update (encrypted_data_column biweekly_config)
                         (PStr (lit ''NON_ENCRYPTED: '' @ take 50 plain_text @ lit ''...''))
                         (with_hash sample_lib biweekly_config (row_of (lit ''R_6'') plain_text))],
            snd ([], [])) =
     ([[(lit ''ResponseId'', PStr (lit ''R_6'')),
        (lit ''encrypted_data'', PStr (lit ''NON_ENCRYPTED: plain text, not encrypted...'')),
        (lit ''encrypted_data_hash'', PStr (lit ''sha256 of plain text, not encrypted''))]],
      [] :: pydict list)" by code_simp
  note t1 = envelope_resolution [where s = package_ok and L = sample_lib]
  note t2 = envelope_resolution [where s = "(lit ''eyJlbmNyeXB0ZWREYXRhIjoiUVE9PSJ9'')" and L = sample_lib]
  note t3 = envelope_resolution [where s = plain_text and L = sample_lib
      and cfg = biweekly_config and row = "row_of (lit ''R_6'') plain_text" and idx = 0
      and acc = "([], [])" and response_id = "PStr (lit ''R_6'')"]
  have c1: "load_encrypted_package sample_lib package_ok =
     Inr (Some (PDict [(lit ''encryptedData'', PStr (lit ''EEcKR1FUFg=='')),
                       (lit ''encryptedKey'', PStr (lit ''S0VZMQ==''))]))"
    using t1 p1 j1 by metis
  have c2: "load_encrypted_package sample_lib (lit ''eyJlbmNyeXB0ZWREYXRhIjoiUVE9PSJ9'') =
     Inr (Some (PDict [(lit ''encryptedData'', PStr (lit ''QQ==''))]))"
    using t2 p2 j2 by metis
  have c3: "decrypt_response_location sample_lib plain_text (PStr (lit ''R_6'')) = Inr []"
    using t3 p3 by blast
  have c4: "process_record sample_lib biweekly_config 0 (row_of (lit ''R_6'') plain_text) ([], []) =
     ([[(lit ''ResponseId'', PStr (lit ''R_6'')),
        (lit ''encrypted_data'', PStr (lit ''NON_ENCRYPTED: plain text, not encrypted...'')),
        (lit ''encrypted_data_hash'', PStr (lit ''sha256 of plain text, not encrypted''))]], [])"
    using t3 p3 m3 n3 o3 by metis
  have p5: "\<not> prefix envelope_prefix empty_text" "\<not> prefix base64_json_prefix empty_text"
    by code_simp+
  have m5: "map_of (row_of (lit ''R_7'') empty_text) (encrypted_data_column biweekly_config) =
     Some (PStr empty_text)" by code_simp
  have n5: "empty_text = []" by (simp add: empty_text_def)
  have o5: "(fst ([], []) @ [row_of (lit ''R_7'') empty_text], snd ([], [])) =
     ([[(lit ''ResponseId'', PStr (lit ''R_7'')), (lit ''encrypted_data'', PStr [])]],
      [] :: pydict list)" by code_simp
  note t5 = envelope_resolution [where s = empty_text and L = sample_lib
      and cfg = biweekly_config and row = "row_of (lit ''R_7'') empty_text" and idx = 1
      and acc = "([], [])"]
  have c5: "process_record sample_lib biweekly_config 1 (row_of (lit ''R_7'') empty_text) ([], []) =
     ([[(lit ''ResponseId'', PStr (lit ''R_7'')), (lit ''encrypted_data'', PStr [])]], [])"
    using t5 p5 m5 n5 o5 by metis
  show ?thesis
    by (intro conjI p1 c1 p2 c2 p3 m3 n3 c3 p5 m5 n5 c5 c4)
qed

text \<open>
  The claim as stated fails: the plain text is not returned verbatim. The output row
  holds the marker, and \<open>_decrypt_response_location\<close> returns the empty list.
\<close>

theorem passthrough_not_verbatim:
  "field_values biweekly_config
     (record_outcome sample_lib biweekly_config 0 (row_of (lit ''R_6'') (lit ''plain text, not encrypted''))) =
     [PStr (lit ''NON_ENCRYPTED: plain text, not encrypted...'')] \<and>
   decrypt_response_location sample_lib (lit ''plain text, not encrypted'') (PStr (lit ''R_6'')) = Inr []"
  by code_simp

section \<open>Envelopes with malformed components\<close>

lemma unwrap_not_base64:
  "py_b64decode L kv = Inl e \<Longrightarrow> decrypt_aes_key L kv = Inr None"
  by (simp add: decrypt_aes_key_def andthen_Inl try_except_def)

lemma decipher_not_base64:
  "py_b64decode L dv = Inl e \<Longrightarrow> decrypt_location_data L dv k = Inr PNone"
  by (simp add: decrypt_location_data_def andthen_Inl try_except_def)

text \<open>
  Claim C8, as amended. For a record whose field parses as a JSON object in which
  \<open>encryptedData\<close> and \<open>encryptedKey\<close> are both present and not empty: when
  \<open>base64.b64decode\<close> raises on \<open>encryptedKey\<close> the field becomes
  \<open>KEY_DECRYPTION_FAILED\<close>; when the key is recovered and \<open>base64.b64decode\<close> raises on
  \<open>encryptedData\<close> the field becomes \<open>DECRYPTION_FAILED\<close>. No exception leaves the record,
  and in every batch the loop appends one row per record, the row of each record being
  the one obtained by processing it alone. A string on which \<open>base64.b64decode\<close> does
  not raise is decoded, also when it has characters outside the base64 alphabet.
\<close>

theorem incomplete_envelope_outcomes:
  "length (fst (group_loop L cfg 0 rows ([], []))) = length rows \<and>
   (\<forall>i<length rows.
      record_outcome L cfg i (rows ! i) = [fst (group_loop L cfg 0 rows ([], [])) ! i]) \<and>
   (has_envelope cfg row s \<and> load_encrypted_package L s = Inr (Some (PDict pkg)) \<and>
    truthy (dict_get pkg (lit ''encryptedData'') PNone) \<and>
    truthy (dict_get pkg (lit ''encryptedKey'') PNone) \<longrightarrow>
      (py_b64decode L (dict_get pkg (lit ''encryptedKey'') PNone) = Inl e \<longrightarrow>
         field_values cfg (record_outcome L cfg idx row) = [PStr (lit ''KEY_DECRYPTION_FAILED'')]) \<and>
      (decrypt_aes_key L (dict_get pkg (lit ''encryptedKey'') PNone) = Inr (Some k) \<and> k \<noteq> [] \<and>
       py_b64decode L (dict_get pkg (lit ''encryptedData'') PNone) = Inl e \<longrightarrow>
         field_values cfg (record_outcome L cfg idx row) = [PStr (lit ''DECRYPTION_FAILED'')]))"
proof -
  have rows: "length (fst (group_loop L cfg 0 rows ([], []))) = length rows"
    and nth: "\<forall>i<length rows.
      record_outcome L cfg i (rows ! i) = [fst (group_loop L cfg 0 rows ([], [])) ! i]"
    using group_rows_nth [of L cfg rows] by simp_all
  have g: "py_get (PDict pkg) (lit ''encryptedData'') = Inr (dict_get pkg (lit ''encryptedData'') PNone)"
    "py_get (PDict pkg) (lit ''encryptedKey'') = Inr (dict_get pkg (lit ''encryptedKey'') PNone)"
    by (simp_all add: py_get_def)
  have key: "field_values cfg (record_outcome L cfg idx row) = [PStr (lit ''KEY_DECRYPTION_FAILED'')]"
    if h: "has_envelope cfg row s" "load_encrypted_package L s = Inr (Some (PDict pkg))"
       "truthy (dict_get pkg (lit ''encryptedData'') PNone)"
       "truthy (dict_get pkg (lit ''encryptedKey'') PNone)"
       "py_b64decode L (dict_get pkg (lit ''encryptedKey'') PNone) = Inl e"
  proof -
    have dk: "decrypt_aes_key L (dict_get pkg (lit ''encryptedKey'') PNone) = Inr None"
      using h(5) by (rule unwrap_not_base64)
    have "try_decrypt L cfg (response_id_of L idx row) s (with_hash L cfg row, []) =
        Finished (AList.update (encrypted_data_column cfg) (PStr (lit ''KEY_DECRYPTION_FAILED''))
                    (fst (with_hash L cfg row, [])), snd (with_hash L cfg row, []))"
      using try_decrypt_key_failed [OF h(2) g(1) g(2) h(3) h(4)] dk by simp
    then show ?thesis
      by (simp add: record_outcome_envelope [OF h(1)] field_values_update)
  qed
  have data: "field_values cfg (record_outcome L cfg idx row) = [PStr (lit ''DECRYPTION_FAILED'')]"
    if h: "has_envelope cfg row s" "load_encrypted_package L s = Inr (Some (PDict pkg))"
       "truthy (dict_get pkg (lit ''encryptedData'') PNone)"
       "truthy (dict_get pkg (lit ''encryptedKey'') PNone)"
       "decrypt_aes_key L (dict_get pkg (lit ''encryptedKey'') PNone) = Inr (Some k)" "k \<noteq> []"
       "py_b64decode L (dict_get pkg (lit ''encryptedData'') PNone) = Inl e"
  proof -
    have dd: "decrypt_location_data L (dict_get pkg (lit ''encryptedData'') PNone) k = Inr PNone"
      using h(7) by (rule decipher_not_base64)
    have "try_decrypt L cfg (response_id_of L idx row) s (with_hash L cfg row, []) =
        Finished (AList.update (encrypted_data_column cfg) (PStr (lit ''DECRYPTION_FAILED''))
                    (fst (with_hash L cfg row, [])), snd (with_hash L cfg row, []))"
      using try_decrypt_data_failed [OF h(2) g(1) g(2) h(3) h(4) h(5) h(6) dd] by simp
    then show ?thesis
      by (simp add: record_outcome_envelope [OF h(1)] field_values_update)
  qed
  from rows nth key data show ?thesis by blast
qed

text \<open>
  The claim as stated fails: \<open>base64.b64decode\<close> discards the characters outside the
  base64 alphabet, so the envelope whose \<open>encryptedData\<close> is \<open>EEcK!!R1FUFg==\<close>, which is
  not valid base64, is decoded like \<open>EEcKR1FUFg==\<close> and deciphered; the record yields
  no failure.
\<close>

theorem lenient_base64_decrypts:
  "load_encrypted_package sample_lib package_lenient =
     Inr (Some (PDict [(lit ''encryptedData'', PStr (lit ''EEcK!!R1FUFg=='')),
                       (lit ''encryptedKey'', PStr (lit ''S0VZMQ==''))])) \<and>
   field_values biweekly_config
     (record_outcome sample_lib biweekly_config 7 (row_of (lit ''R_8'') package_lenient)) =
     [PStr (lit ''DECRYPTED: 8 chars'')] \<and>
   map (\<lambda>r. map_of r (lit ''decrypted_a''))
     (record_outcome sample_lib biweekly_config 7 (row_of (lit ''R_8'') package_lenient)) =
     [Some (PInt 1)] \<and>
   map is_failure_sentinel
     (field_values biweekly_config
        (record_outcome sample_lib biweekly_config 7 (row_of (lit ''R_8'') package_lenient))) =
     [False]"
  by code_simp

text \<open>
  A batch in which the key of the second record and the data of the third record are
  not base64: the two records get their sentinels and the records around them decrypt.
\<close>

theorem incomplete_envelope_outcomes_witness:
  "has_envelope biweekly_config (malformed_batch ! 1) package_key_not_base64 \<and>
   field_values biweekly_config
     (record_outcome sample_lib biweekly_config 1 (malformed_batch ! 1)) =
     [PStr (lit ''KEY_DECRYPTION_FAILED'')] \<and>
   has_envelope biweekly_config (malformed_batch ! 2) package_data_not_base64 \<and>
   field_values biweekly_config
     (record_outcome sample_lib biweekly_config 2 (malformed_batch ! 2)) =
     [PStr (lit ''DECRYPTION_FAILED'')] \<and>
   length (fst (group_loop sample_lib biweekly_config 0 malformed_batch ([], []))) = 4 \<and>
   record_outcome sample_lib biweekly_config 3 (malformed_batch ! 3) =
     [fst (group_loop sample_lib biweekly_config 0 malformed_batch ([], [])) ! 3] \<and>
   field_values biweekly_config
     (fst (group_loop sample_lib biweekly_config 0 malformed_batch ([], []))) =
     [PStr (lit ''DECRYPTED: 8 chars''), PStr (lit ''KEY_DECRYPTION_FAILED''),
      PStr (lit ''DECRYPTION_FAILED''), PStr (lit ''DECRYPTED: 8 chars'')]"
proof -
  let ?p2 = "[(lit ''encryptedData'', PStr (lit ''QQ=='')), (lit ''encryptedKey'', PStr (lit ''not-base64!!''))]"
  let ?p3 = "[(lit ''encryptedData'', PStr (lit ''not-base64!!'')), (lit ''encryptedKey'', PStr (lit ''S0VZMQ==''))]"
  let ?e = "PyExc ''binascii.Error''
              (lit ''Invalid base64-encoded string: number of data characters (9) '' @
               (lit ''cannot be 1 more than a multiple of 4''))"
  have e2: "has_envelope biweekly_config (malformed_batch ! 1) package_key_not_base64"
    by code_simp
  have l2: "load_encrypted_package sample_lib package_key_not_base64 = Inr (Some (PDict ?p2))"
    by code_simp
  have m2: "truthy (dict_get ?p2 (lit ''encryptedData'') PNone)"
    "truthy (dict_get ?p2 (lit ''encryptedKey'') PNone)"
    by (simp_all add: dict_get_def lit_def)
  have b2: "py_b64decode sample_lib (dict_get ?p2 (lit ''encryptedKey'') PNone) = Inl ?e"
    by code_simp
  have e3: "has_envelope biweekly_config (malformed_batch ! 2) package_data_not_base64"
    by code_simp
  have l3: "load_encrypted_package sample_lib package_data_not_base64 = Inr (Some (PDict ?p3))"
    by code_simp
  have m3: "truthy (dict_get ?p3 (lit ''encryptedData'') PNone)"
    "truthy (dict_get ?p3 (lit ''encryptedKey'') PNone)"
    by (simp_all add: dict_get_def lit_def)
  have k3: "decrypt_aes_key sample_lib (dict_get ?p3 (lit ''encryptedKey'') PNone) = Inr (Some key_ke)"
    by code_simp
  have n3: "key_ke \<noteq> []" by (simp add: key_ke_def)
  have b3: "py_b64decode sample_lib (dict_get ?p3 (lit ''encryptedData'') PNone) = Inl ?e"
    by code_simp
  have len: "length malformed_batch = 4" by code_simp
  have all: "field_values biweekly_config
     (fst (group_loop sample_lib biweekly_config 0 malformed_batch ([], []))) =
     [PStr (lit ''DECRYPTED: 8 chars''), PStr (lit ''KEY_DECRYPTION_FAILED''),
      PStr (lit ''DECRYPTION_FAILED''), PStr (lit ''DECRYPTED: 8 chars'')]" by code_simp
  note t2 = incomplete_envelope_outcomes [where L = sample_lib and cfg = biweekly_config
      and rows = malformed_batch and row = "malformed_batch ! 1"
      and s = package_key_not_base64 and pkg = ?p2 and idx = 1 and e = ?e]
  note t3 = incomplete_envelope_outcomes [where L = sample_lib and cfg = biweekly_config
      and rows = malformed_batch and row = "malformed_batch ! 2"
      and s = package_data_not_base64 and pkg = ?p3 and idx = 2 and e = ?e and k = key_ke]
  have c0: "length (fst (group_loop sample_lib biweekly_config 0 malformed_batch ([], []))) = 4"
    using t2 len by metis
  have c1: "record_outcome sample_lib biweekly_config 3 (malformed_batch ! 3) =
     [fst (group_loop sample_lib biweekly_config 0 malformed_batch ([], [])) ! 3]"
    using t2 [THEN conjunct2, THEN conjunct1, THEN spec, of 3] len by simp
  have c2: "field_values biweekly_config
     (record_outcome sample_lib biweekly_config 1 (malformed_batch ! 1)) =
     [PStr (lit ''KEY_DECRYPTION_FAILED'')]"
    using t2 e2 l2 m2 b2 by blast
  have c3: "field_values biweekly_config
     (record_outcome sample_lib biweekly_config 2 (malformed_batch ! 2)) =
     [PStr (lit ''DECRYPTION_FAILED'')]"
    using t3 e3 l3 m3 k3 n3 b3 by blast
  show ?thesis
    by (intro conjI e2 c2 e3 c3 c0 c1 all)
qed

text \<open>
  An envelope in which a component is missing or empty. The guard
  \<open>if encrypted_data_b64 and encrypted_key_b64:\<close> of \<open>_process_survey_group\<close> has no
  \<open>else\<close> branch: the row is appended with its field unchanged and no sentinel is
  written. For the same envelope \<open>_decrypt_response_location\<close> raises \<open>KeyError\<close> at
  \<open>encrypted_package['encryptedKey']\<close> and reports the error, and the debugging script
  prints \<open>Missing encryptedData or encryptedKey\<close>.
\<close>

lemma process_record_skipped:
  assumes "has_envelope cfg row s"
    and "load_encrypted_package L s = Inr (Some (PDict pkg))"
    and "\<not> truthy (dict_get pkg (lit ''encryptedData'') PNone) \<or>
         \<not> truthy (dict_get pkg (lit ''encryptedKey'') PNone)"
  shows "process_record L cfg idx row acc = (fst acc @ [with_hash L cfg row], snd acc)"
  using has_envelope_field [OF assms(1)]
  by (simp add: process_record_def Let_def try_decrypt_skipped [OF assms(2,3)])

lemma missing_key_passes_through:
  "record_outcome sample_lib biweekly_config 4 (row_of (lit ''R_5'') package_missing_key) =
     [[(lit ''ResponseId'', PStr (lit ''R_5'')), (lit ''encrypted_data'', PStr package_missing_key),
       (lit ''encrypted_data_hash'', PStr (lit ''sha256 of '' @ package_missing_key))]] \<and>
   map is_failure_sentinel
     (field_values biweekly_config
        (record_outcome sample_lib biweekly_config 4 (row_of (lit ''R_5'') package_missing_key))) =
     [False]"
  by code_simp

end
